theory Spec2Isabelle
  imports Complex_Main
begin

section \<open>Numbers\<close>

text \<open>
  The program computes with JavaScript numbers. Finite numbers are modelled as
  \<^typ>\<open>real\<close> (no rounding). Where the source can produce a value that is not a
  finite number (a division whose divisor may be zero, the initial bounds
  \<open>Infinity\<close> and \<open>-Infinity\<close>) the model uses \<open>jsnum\<close>. A coordinate that a
  conversion may leave as \<open>NaN\<close> is a \<^typ>\<open>real option\<close>, \<open>None\<close> for \<open>NaN\<close>.
  The numbers of the input are finite, and its dates are valid.
\<close>

datatype jsnum = NaN | PosInf | NegInf | Num real

text \<open>\<open>a / b\<close> on finite numbers, with the results JavaScript gives for a zero divisor.\<close>

definition jsdiv :: "real \<Rightarrow> real \<Rightarrow> jsnum" where
  "jsdiv a b =
     (if b = 0 then (if a = 0 then NaN else if 0 < a then PosInf else NegInf)
      else Num (a / b))"

text \<open>\<open>Math.min(m, x)\<close> and \<open>Math.max(m, x)\<close> for a finite \<open>x\<close>.\<close>

fun jsmin :: "jsnum \<Rightarrow> real \<Rightarrow> jsnum" where
  "jsmin NaN x = NaN"
| "jsmin PosInf x = Num x"
| "jsmin NegInf x = NegInf"
| "jsmin (Num m) x = Num (min m x)"

fun jsmax :: "jsnum \<Rightarrow> real \<Rightarrow> jsnum" where
  "jsmax NaN x = NaN"
| "jsmax PosInf x = PosInf"
| "jsmax NegInf x = Num x"
| "jsmax (Num m) x = Num (max m x)"

text \<open>
  Truthiness of an optional number, as tested by \<open>x ? a : b\<close>, \<open>x && y\<close> and
  \<open>x || y\<close>: \<open>undefined\<close> and \<open>0\<close> are falsy.
\<close>

fun truthy :: "real option \<Rightarrow> bool" where
  "truthy None = False"
| "truthy (Some v) = (v \<noteq> 0)"

text \<open>\<open>x || y\<close> on optional numbers.\<close>

definition js_or :: "real option \<Rightarrow> real option \<Rightarrow> real option" where
  "js_or x y = (if truthy x then x else y)"

section \<open>Data model (types/activity.ts)\<close>

text \<open>A \<open>Date\<close> is its \<open>getTime()\<close>, the milliseconds since the epoch.\<close>

type_synonym date = int

record Split =
  index :: nat
  distance :: real
  time :: real
  pace :: real
  elevationGain :: real
  averageHR :: "real option"

text \<open>
  The description of a segment is a string formatted from numbers; the model keeps the
  numbers.
\<close>

datatype description = MaxHR_bpm real | Climb_percent_over_km real real

record Segment =
  startIndex :: nat
  endIndex :: nat
  distance :: real
  grade :: real
  description :: description

text \<open>
  The field \<open>power\<close> is \<open>powerW\<close> here, \<open>power\<close> being the exponentiation of HOL.
\<close>

record Point =
  lat :: real
  lng :: real
  ele :: "real option"
  time :: "date option"
  hr :: "real option"
  cadence :: "real option"
  powerW :: "real option"
  temp :: "real option"

record ProcessedPoint = Point +
  distance :: real
  pace :: real
  grade :: real
  speed :: real
  normalizedHR :: "real option"
  normalizedPace :: "real option"
  normalizedPower :: "real option"

record Bounds =
  minLat :: jsnum
  maxLat :: jsnum
  minLng :: jsnum
  maxLng :: jsnum

record Activity =
  name :: string
  date :: "date option"
  points :: "Point list"
  totalDistance :: real
  totalElevationGain :: real
  totalTime :: real
  averagePace :: jsnum
  averageHR :: "real option"
  maxHR :: "real option"
  bounds :: Bounds

text \<open>What a parser throws: \<open>new Error(message)\<close>, or the runtime's \<open>TypeError\<close>.\<close>

datatype error = Error string | TypeError

section \<open>Geodesic distance (gpxParser.ts, tcxParser.ts, the binary adapter)\<close>

text \<open>\<open>Math.atan2(y, x)\<close> on finite arguments.\<close>

definition atan2 :: "real \<Rightarrow> real \<Rightarrow> real" where
  "atan2 y x =
     (if 0 < x then arctan (y / x)
      else if x < 0 then (if 0 \<le> y then arctan (y / x) + pi else arctan (y / x) - pi)
      else if 0 < y then pi / 2
      else if y < 0 then - (pi / 2)
      else 0)"

text \<open>The radicand \<open>a\<close> of the haversine formula.\<close>

definition haversine_a :: "Point \<Rightarrow> Point \<Rightarrow> real" where
  "haversine_a p1 p2 =
     (let phi1 = (lat p1 * pi) / 180;
          phi2 = (lat p2 * pi) / 180;
          dphi = ((lat p2 - lat p1) * pi) / 180;
          dlam = ((lng p2 - lng p1) * pi) / 180
      in sin (dphi / 2) * sin (dphi / 2) +
         cos phi1 * cos phi2 * sin (dlam / 2) * sin (dlam / 2))"

text \<open>
  \<open>haversineDistance\<close> is the formula of the source in exact arithmetic, where the
  radicand lies in [0,1]. The source evaluates the formula in binary64, and there
  rounding can take the radicand above 1: for the points (2.5, 0) and (-2.5, 180) it
  is \<open>1 + 2^-52\<close>. \<open>Math.sqrt(1 - a)\<close> is then \<open>NaN\<close>, and so is the distance. The
  model does not round, so it does not have this result;
  \<open>haversine_of_radicand\<close> below is the end of the source's function on a radicand
  as binary64 may leave it.
\<close>

definition haversineDistance :: "Point \<Rightarrow> Point \<Rightarrow> real" where
  "haversineDistance p1 p2 =
     (let R = 6371000;
          a = haversine_a p1 p2;
          c = 2 * atan2 (sqrt a) (sqrt (1 - a))
      in R * c)"

text \<open>
  \<open>const c = 2 * Math.atan2(Math.sqrt(a), Math.sqrt(1 - a)); return R * c\<close> on a
  radicand \<open>a\<close> that need not lie in [0,1]: \<open>Math.sqrt\<close> of a negative number is
  \<open>NaN\<close>, and every operation on \<open>NaN\<close> gives \<open>NaN\<close>.
\<close>

definition haversine_of_radicand :: "real \<Rightarrow> jsnum" where
  "haversine_of_radicand a =
     (if a < 0 \<or> 1 - a < 0 then NaN
      else Num (6371000 * (2 * atan2 (sqrt a) (sqrt (1 - a)))))"

section \<open>Metrics engine (dataProcessor.ts)\<close>

datatype field =
  F_lat | F_lng | F_ele | F_time | F_hr | F_cadence | F_power | F_temp |
  F_distance | F_pace | F_grade | F_speed |
  F_normalizedHR | F_normalizedPace | F_normalizedPower

text \<open>
  \<open>points[i][field]\<close> where \<open>typeof val === "number"\<close>, and \<open>None\<close> where it is
  \<open>undefined\<close> or a \<open>Date\<close>.
\<close>

fun numberField :: "field \<Rightarrow> ProcessedPoint \<Rightarrow> real option" where
  "numberField F_lat p = Some (lat p)"
| "numberField F_lng p = Some (lng p)"
| "numberField F_ele p = ele p"
| "numberField F_time p = None"
| "numberField F_hr p = hr p"
| "numberField F_cadence p = cadence p"
| "numberField F_power p = powerW p"
| "numberField F_temp p = temp p"
| "numberField F_distance p = Some (ProcessedPoint.distance p)"
| "numberField F_pace p = Some (ProcessedPoint.pace p)"
| "numberField F_grade p = Some (ProcessedPoint.grade p)"
| "numberField F_speed p = Some (speed p)"
| "numberField F_normalizedHR p = normalizedHR p"
| "numberField F_normalizedPace p = normalizedPace p"
| "numberField F_normalizedPower p = normalizedPower p"

text \<open>
  The loop of \<open>smoothValue\<close> over the indices \<open>start, ..., index - 1\<close>. Reading
  \<open>points[i][field]\<close> beyond the end of \<open>points\<close> throws a \<open>TypeError\<close>: \<open>None\<close>.
\<close>

fun smoothValue_loop ::
  "ProcessedPoint list \<Rightarrow> field \<Rightarrow> nat list \<Rightarrow> real \<times> nat \<Rightarrow> (real \<times> nat) option" where
  "smoothValue_loop pts field [] (sumAcc, count) = Some (sumAcc, count)"
| "smoothValue_loop pts field (i # is) (sumAcc, count) =
     (if i < length pts then
        (case numberField field (pts ! i) of
           Some val \<Rightarrow> smoothValue_loop pts field is (sumAcc + val, count + 1)
         | None \<Rightarrow> smoothValue_loop pts field is (sumAcc, count))
      else None)"

text \<open>
  \<open>start\<close> is \<open>Math.max(0, index - halfWindow)\<close>, which is the subtraction of
  \<^typ>\<open>nat\<close>.
\<close>

definition smoothValue ::
  "ProcessedPoint list \<Rightarrow> nat \<Rightarrow> field \<Rightarrow> real \<Rightarrow> nat \<Rightarrow> real option" where
  "smoothValue pts idx field value windowSize =
     (let halfWindow = windowSize div 2;
          start = idx - halfWindow;
          endIndex = min (length pts) (idx + halfWindow)
      in if int endIndex - int start = 0 then Some value
         else map_option (\<lambda>(sumAcc, count). sumAcc / real count)
                (smoothValue_loop pts field [start..<idx] (value, 1)))"

text \<open>
  One iteration of the loop of \<open>computeMetrics\<close>, on the state
  \<open>(processed, cumulativeDistance)\<close>. \<open>curr.ele && prev.ele\<close> is false for an
  elevation that is absent or 0. The loop runs \<open>i\<close> below \<open>points.length\<close>, so
  \<open>points[i]\<close> is in range.
\<close>

definition computeMetrics_step ::
  "Point list \<Rightarrow> nat \<Rightarrow> ProcessedPoint list \<times> real \<Rightarrow> (ProcessedPoint list \<times> real) option" where
  "computeMetrics_step pts i st =
     (case st of (processed, cumulativeDistance0) \<Rightarrow>
        let curr = pts ! i;
            prev = (if 0 < i then pts ! (i - 1) else curr);
            segmentDistance = (if 0 < i then haversineDistance prev curr else 0);
            cumulativeDistance = cumulativeDistance0 + segmentDistance;
            timeDelta =
              (case (Point.time curr, Point.time prev) of
                 (Some tc, Some tp) \<Rightarrow> (real_of_int tc - real_of_int tp) / 1000
               | _ \<Rightarrow> 1);
            speed = (if 0 < timeDelta then segmentDistance / timeDelta else 0);
            pace = (if 0 < speed then 1000 / (speed * 60) else 0);
            elevationDelta =
              (case (ele curr, ele prev) of
                 (Some ec, Some ep) \<Rightarrow> (if ec \<noteq> 0 \<and> ep \<noteq> 0 then ec - ep else 0)
               | _ \<Rightarrow> 0);
            grade = (if 0 < segmentDistance then (elevationDelta / segmentDistance) * 100 else 0)
        in case smoothValue processed i F_pace pace 10 of
             None \<Rightarrow> None
           | Some smoothedPace \<Rightarrow>
               (case smoothValue processed i F_grade grade 5 of
                  None \<Rightarrow> None
                | Some smoothedGrade \<Rightarrow>
                    Some (processed @
                            [Point.extend curr
                               (ProcessedPoint.fields cumulativeDistance smoothedPace
                                  smoothedGrade speed None None None)],
                          cumulativeDistance)))"

fun computeMetrics_loop ::
  "Point list \<Rightarrow> nat list \<Rightarrow> ProcessedPoint list \<times> real \<Rightarrow> (ProcessedPoint list \<times> real) option" where
  "computeMetrics_loop pts [] st = Some st"
| "computeMetrics_loop pts (i # is) st =
     (case computeMetrics_step pts i st of
        None \<Rightarrow> None
      | Some st' \<Rightarrow> computeMetrics_loop pts is st')"

definition computeMetrics :: "Point list \<Rightarrow> ProcessedPoint list option" where
  "computeMetrics pts =
     map_option fst (computeMetrics_loop pts [0..<length pts] ([], 0))"

definition normalize_metric :: "real \<Rightarrow> real \<Rightarrow> real \<Rightarrow> real" where
  "normalize_metric value mn mx =
     (if mx = mn then 1 / 2 else max 0 (min 1 ((value - mn) / (mx - mn))))"

text \<open>
  \<open>sorted[index] || 0\<close>: 0 where the index is outside the array (an empty array), and
  where the element is 0.
\<close>

definition percentile :: "real list \<Rightarrow> real \<Rightarrow> real" where
  "percentile values p =
     (let sorted = sort values;
          index = \<lfloor>real (length sorted) * p\<rfloor>
      in if 0 \<le> index \<and> index < int (length sorted)
         then (if sorted ! nat index = 0 then 0 else sorted ! nat index)
         else 0)"

definition normalizeMetrics :: "ProcessedPoint list \<Rightarrow> ProcessedPoint list" where
  "normalizeMetrics pts =
     (let paces = filter (\<lambda>p. 0 < p) (map ProcessedPoint.pace pts);
          hrs = map the (filter (\<lambda>h. h \<noteq> None) (map hr pts));
          powers = map the (filter (\<lambda>p. p \<noteq> None) (map powerW pts));
          paceP5 = percentile paces (5 / 100);
          paceP95 = percentile paces (95 / 100);
          hrP5 = (if 0 < length hrs then percentile hrs (5 / 100) else 0);
          hrP95 = (if 0 < length hrs then percentile hrs (95 / 100) else 0);
          powerP5 = (if 0 < length powers then percentile powers (5 / 100) else 0);
          powerP95 = (if 0 < length powers then percentile powers (95 / 100) else 0)
      in map (\<lambda>point. point
                \<lparr>normalizedPace := Some (normalize_metric (ProcessedPoint.pace point) paceP5 paceP95),
                 normalizedHR :=
                   (case hr point of
                      Some h \<Rightarrow> (if h \<noteq> 0 then Some (normalize_metric h hrP5 hrP95) else None)
                    | None \<Rightarrow> None),
                 normalizedPower :=
                   (case powerW point of
                      Some w \<Rightarrow> (if w \<noteq> 0 then Some (normalize_metric w powerP5 powerP95) else None)
                    | None \<Rightarrow> None)\<rparr>)
           pts)"

text \<open>The metrics engine of \<open>processActivity\<close>: \<open>computeMetrics\<close>, then \<open>normalizeMetrics\<close>.\<close>

definition metricsEngine :: "Point list \<Rightarrow> ProcessedPoint list option" where
  "metricsEngine pts = map_option normalizeMetrics (computeMetrics pts)"

section \<open>Segmentation engine (dataProcessor.ts)\<close>

text \<open>\<open>points.slice(a, b)\<close> for \<open>0 \<le> a\<close> and \<open>0 \<le> b\<close>.\<close>

definition slice :: "'a list \<Rightarrow> nat \<Rightarrow> nat \<Rightarrow> 'a list" where
  "slice xs a b = take (b - a) (drop a xs)"

text \<open>
  The body of the \<open>if\<close> of \<open>detectSplits\<close>: the split built from \<open>splitPoints\<close>, a
  slice of at least two points. \<open>p.hr || 0\<close> is 0 for a point without heart rate.
\<close>

definition closeSplit :: "nat \<Rightarrow> real \<Rightarrow> ProcessedPoint list \<Rightarrow> Split" where
  "closeSplit splitsLength currentSplitDistance splitPoints =
     (let startTime = Point.time (splitPoints ! 0);
          endTime = Point.time (splitPoints ! (length splitPoints - 1));
          splitTime =
            (case (startTime, endTime) of
               (Some s, Some e) \<Rightarrow> (real_of_int e - real_of_int s) / 1000
             | _ \<Rightarrow> 0);
          avgPace =
            foldl (\<lambda>sum p. sum + ProcessedPoint.pace p) 0 splitPoints / real (length splitPoints);
          avgHR =
            foldl (\<lambda>sum p. sum + (case hr p of Some h \<Rightarrow> h | None \<Rightarrow> 0)) 0 splitPoints /
            real (length splitPoints);
          elevGain =
            foldl (\<lambda>sum idx.
                     if idx = 0 then sum
                     else (case (ele (splitPoints ! idx), ele (splitPoints ! (idx - 1))) of
                             (Some e, Some pe) \<Rightarrow>
                               sum + (if e \<noteq> 0 \<and> pe \<noteq> 0 \<and> pe < e then e - pe else 0)
                           | _ \<Rightarrow> sum + 0))
                  0 [0..<length splitPoints]
      in Split.make splitsLength currentSplitDistance splitTime avgPace elevGain
           (if 0 < avgHR then Some avgHR else None))"

text \<open>
  One iteration of the loop of \<open>detectSplits\<close>, on the state
  \<open>(splits, currentSplitStart, currentSplitDistance)\<close>.
\<close>

definition detectSplits_step ::
  "ProcessedPoint list \<Rightarrow> real \<Rightarrow> nat \<Rightarrow> Split list \<times> nat \<times> real \<Rightarrow> Split list \<times> nat \<times> real" where
  "detectSplits_step pts splitDistance i st =
     (case st of (splits, currentSplitStart, currentSplitDistance0) \<Rightarrow>
        let segmentDistance =
              ProcessedPoint.distance (pts ! i) - ProcessedPoint.distance (pts ! (i - 1));
            currentSplitDistance = currentSplitDistance0 + segmentDistance
        in if splitDistance \<le> currentSplitDistance
           then (splits @
                   [closeSplit (length splits) currentSplitDistance
                      (slice pts currentSplitStart (i + 1))],
                 i, 0)
           else (splits, currentSplitStart, currentSplitDistance))"

definition detectSplits :: "ProcessedPoint list \<Rightarrow> real \<Rightarrow> Split list" where
  "detectSplits pts splitDistance =
     fst (fold (detectSplits_step pts splitDistance) [1..<length pts] ([], 0, 0))"

text \<open>
  One iteration of the loop of \<open>findMaxHRSegment\<close>, on the state \<open>(maxHR, maxHRIndex)\<close>.
  \<open>points[i].hr && points[i].hr > maxHR\<close> is false for a heart rate that is absent or 0.
\<close>

definition findMaxHRSegment_step ::
  "ProcessedPoint list \<Rightarrow> nat \<Rightarrow> real \<times> int \<Rightarrow> real \<times> int" where
  "findMaxHRSegment_step pts i st =
     (case st of (maxHR', maxHRIndex) \<Rightarrow>
        (case hr (pts ! i) of
           Some h \<Rightarrow> (if h \<noteq> 0 \<and> maxHR' < h then (h, int i) else (maxHR', maxHRIndex))
         | None \<Rightarrow> (maxHR', maxHRIndex)))"

definition findMaxHRSegment :: "ProcessedPoint list \<Rightarrow> Segment option" where
  "findMaxHRSegment pts =
     (case fold (findMaxHRSegment_step pts) [0..<length pts] (0, - 1) of
        (maxHR', maxHRIndex) \<Rightarrow>
          if maxHRIndex = - 1 then None
          else
            let windowSize = 30;
                start = nat (max 0 (maxHRIndex - windowSize));
                endIdx = nat (min (int (length pts) - 1) (maxHRIndex + windowSize))
            in Some (Segment.make start endIdx
                       (ProcessedPoint.distance (pts ! endIdx) -
                        ProcessedPoint.distance (pts ! start))
                       0 (MaxHR_bpm maxHR')))"

section \<open>Quantities used to state the properties\<close>

text \<open>
  The raw values \<open>segmentDistance\<close>, \<open>speed\<close>, \<open>pace\<close> and \<open>grade\<close> that
  iteration \<open>i\<close> of \<open>computeMetrics\<close> computes before smoothing.
\<close>

definition rawSegmentDistance :: "Point list \<Rightarrow> nat \<Rightarrow> real" where
  "rawSegmentDistance pts i = (if 0 < i then haversineDistance (pts ! (i - 1)) (pts ! i) else 0)"

definition rawTimeDelta :: "Point list \<Rightarrow> nat \<Rightarrow> real" where
  "rawTimeDelta pts i =
     (case (Point.time (pts ! i), Point.time (if 0 < i then pts ! (i - 1) else pts ! i)) of
        (Some tc, Some tp) \<Rightarrow> (real_of_int tc - real_of_int tp) / 1000
      | _ \<Rightarrow> 1)"

definition rawSpeed :: "Point list \<Rightarrow> nat \<Rightarrow> real" where
  "rawSpeed pts i =
     (if 0 < rawTimeDelta pts i then rawSegmentDistance pts i / rawTimeDelta pts i else 0)"

definition rawPace :: "Point list \<Rightarrow> nat \<Rightarrow> real" where
  "rawPace pts i = (if 0 < rawSpeed pts i then 1000 / (rawSpeed pts i * 60) else 0)"

definition rawElevationDelta :: "Point list \<Rightarrow> nat \<Rightarrow> real" where
  "rawElevationDelta pts i =
     (case (ele (pts ! i), ele (if 0 < i then pts ! (i - 1) else pts ! i)) of
        (Some ec, Some ep) \<Rightarrow> (if ec \<noteq> 0 \<and> ep \<noteq> 0 then ec - ep else 0)
      | _ \<Rightarrow> 0)"

definition rawGrade :: "Point list \<Rightarrow> nat \<Rightarrow> real" where
  "rawGrade pts i =
     (if 0 < rawSegmentDistance pts i
      then (rawElevationDelta pts i / rawSegmentDistance pts i) * 100 else 0)"

text \<open>
  The trailing average of a raw value \<open>v\<close> at index \<open>i\<close> with the up to \<open>h\<close>
  values \<open>f (ps ! k)\<close> at the indices \<open>k\<close> from \<open>i - h\<close> up to \<open>i - 1\<close>.
\<close>

definition trailingAverage :: "(ProcessedPoint \<Rightarrow> real) \<Rightarrow> ProcessedPoint list \<Rightarrow> nat \<Rightarrow> nat \<Rightarrow> real \<Rightarrow> real" where
  "trailingAverage f ps i h v =
     (v + sum_list (map (\<lambda>k. f (ps ! k)) [i - h..<i])) / real (1 + min i h)"

text \<open>
  The processed point at index \<open>i\<close>, from the input points and the processed points
  before it: the input point extended by the cumulative distance, the smoothed pace
  and grade, and the speed.
\<close>

definition processedAt :: "Point list \<Rightarrow> ProcessedPoint list \<Rightarrow> nat \<Rightarrow> ProcessedPoint" where
  "processedAt pts ps i =
     Point.extend (pts ! i)
       (ProcessedPoint.fields (sum (rawSegmentDistance pts) {..i})
          (trailingAverage ProcessedPoint.pace ps i 5 (rawPace pts i))
          (trailingAverage ProcessedPoint.grade ps i 2 (rawGrade pts i))
          (rawSpeed pts i) None None None)"

text \<open>
  The values over which \<open>normalizeMetrics\<close> takes its percentiles: the positive
  paces, the defined heart rates, the defined powers.
\<close>

definition pacePopulation :: "ProcessedPoint list \<Rightarrow> real list" where
  "pacePopulation pts = filter (\<lambda>p. 0 < p) (map ProcessedPoint.pace pts)"

definition hrPopulation :: "ProcessedPoint list \<Rightarrow> real list" where
  "hrPopulation pts = map the (filter (\<lambda>h. h \<noteq> None) (map hr pts))"

definition powerPopulation :: "ProcessedPoint list \<Rightarrow> real list" where
  "powerPopulation pts = map the (filter (\<lambda>p. p \<noteq> None) (map powerW pts))"

text \<open>
  A processed point for the examples: at cumulative distance \<open>d\<close>, with heart rate
  \<open>h\<close> and pace \<open>p\<close>, and no other optional field.
\<close>

definition samplePoint :: "real \<Rightarrow> real option \<Rightarrow> real \<Rightarrow> ProcessedPoint" where
  "samplePoint d h p =
     Point.extend
       \<lparr>lat = 0, lng = 0, ele = None, time = None, hr = h, cadence = None, powerW = None,
        temp = None\<rparr>
       (ProcessedPoint.fields d p 0 0 None None None)"

text \<open>
  The per-point distance deltas accumulated from the boundary index \<open>start\<close> up to
  the index \<open>i\<close>.
\<close>

definition accumulatedSince :: "ProcessedPoint list \<Rightarrow> nat \<Rightarrow> nat \<Rightarrow> real" where
  "accumulatedSince pts start i =
     sum_list
       (map (\<lambda>k. ProcessedPoint.distance (pts ! k) - ProcessedPoint.distance (pts ! (k - 1)))
          [start + 1..<i + 1])"

text \<open>
  The splits as the specification describes them, from the boundary index \<open>start\<close> on
  and numbered from \<open>k\<close>: the next boundary is the first index after \<open>start\<close> at
  which the distance accumulated since \<open>start\<close> reaches or exceeds \<open>splitDistance\<close>;
  the split spans the points from \<open>start\<close> to that index, both included, and the
  accumulation starts again from that index. Where no such index is left, nothing more
  is emitted.
\<close>

function spec_splits :: "ProcessedPoint list \<Rightarrow> real \<Rightarrow> nat \<Rightarrow> nat \<Rightarrow> Split list" where
  "spec_splits pts splitDistance k start =
     (case find (\<lambda>i. splitDistance \<le> accumulatedSince pts start i)
             [start + 1..<length pts] of
        None \<Rightarrow> []
      | Some i \<Rightarrow>
          closeSplit k (accumulatedSince pts start i) (slice pts start (i + 1)) #
          spec_splits pts splitDistance (k + 1) i)"
  by pat_completeness auto
termination
proof (relation "measure (\<lambda>(pts, splitDistance, k, start). length pts - start)")
  show "wf (measure (\<lambda>(pts, splitDistance, k, start). length pts - start))"
    by simp
next
  fix pts :: "ProcessedPoint list" and splitDistance :: real and k start i :: nat
  assume "find (\<lambda>i. splitDistance \<le> accumulatedSince pts start i)
             [start + 1..<length pts] = Some i"
  then have "i \<in> set [start + 1..<length pts]"
    by (auto simp: find_Some_iff)
  then show "((pts, splitDistance, k + 1, i), (pts, splitDistance, k, start)) \<in>
               measure (\<lambda>(pts, splitDistance, k, start). length pts - start)"
    by auto
qed

text \<open>
  The example of the specification: 26 points sampled every 100 distance units, from 0
  to 2500.
\<close>

definition uniform2500 :: "ProcessedPoint list" where
  "uniform2500 = map (\<lambda>i. samplePoint (100 * real i) None 5) [0..<26]"

section \<open>Totals recomputed from the points (the three parsers)\<close>

text \<open>\<open>String.replace(pattern, "")\<close>: the first occurrence of the pattern removed.\<close>

fun remove_first :: "string \<Rightarrow> string \<Rightarrow> string" where
  "remove_first pat [] = []"
| "remove_first pat (c # cs) =
     (if take (length pat) (c # cs) = pat then drop (length pat) (c # cs)
      else c # remove_first pat cs)"

text \<open>\<open>x || d\<close> for an optional number \<open>x\<close> and a number \<open>d\<close>.\<close>

definition or_else :: "real option \<Rightarrow> real \<Rightarrow> real" where
  "or_else x d = (case x of Some v \<Rightarrow> (if v \<noteq> 0 then v else d) | None \<Rightarrow> d)"

text \<open>A string is truthy when it is present and not empty.\<close>

fun truthy_string :: "string option \<Rightarrow> bool" where
  "truthy_string None = False"
| "truthy_string (Some s) = (s \<noteq> [])"

text \<open>
  \<open>firstPoint.time && lastPoint.time ? (last - first) / 1000 : 0\<close> on a list of points
  that is not empty.
\<close>

definition timeSpan :: "Point list \<Rightarrow> real" where
  "timeSpan pts =
     (case (Point.time (pts ! 0), Point.time (pts ! (length pts - 1))) of
        (Some t0, Some t1) \<Rightarrow> (real_of_int t1 - real_of_int t0) / 1000
      | _ \<Rightarrow> 0)"

text \<open>\<open>curr.ele && prev.ele && curr.ele > prev.ele ? curr.ele - prev.ele : 0\<close>.\<close>

definition elevationGainStep :: "Point \<Rightarrow> Point \<Rightarrow> real" where
  "elevationGainStep prevPoint currPoint =
     (case (ele currPoint, ele prevPoint) of
        (Some ec, Some ep) \<Rightarrow> (if ec \<noteq> 0 \<and> ep \<noteq> 0 \<and> ep < ec then ec - ep else 0)
      | _ \<Rightarrow> 0)"

record Totals =
  t_totalDistance :: real
  t_totalElevationGain :: real
  t_totalTime :: real
  t_averagePace :: jsnum
  t_averageHR :: "real option"
  t_maxHR :: "real option"
  t_bounds :: Bounds

subsection \<open>gpxParser.ts: \<open>calculateBasicMetrics\<close>\<close>

text \<open>
  One iteration of the loop, on the state \<open>(totalDistance, totalElevationGain, bounds)\<close>.
\<close>

definition calculateBasicMetrics_step ::
  "Point list \<Rightarrow> nat \<Rightarrow> real \<times> real \<times> Bounds \<Rightarrow> real \<times> real \<times> Bounds" where
  "calculateBasicMetrics_step pts i st =
     (case st of (totalDistance', totalElevationGain', b) \<Rightarrow>
        let prev = pts ! (i - 1);
            curr = pts ! i
        in (totalDistance' + haversineDistance prev curr,
            totalElevationGain' + elevationGainStep prev curr,
            \<lparr>minLat = jsmin (minLat b) (lat curr), maxLat = jsmax (maxLat b) (lat curr),
             minLng = jsmin (minLng b) (lng curr), maxLng = jsmax (maxLng b) (lng curr)\<rparr>))"

text \<open>
  On an empty list \<open>points[0].time\<close> throws a \<open>TypeError\<close>. With a positive
  \<open>totalTime\<close> the pace is \<open>totalTime / totalDistance\<close>, a division by a distance that
  may be zero.
\<close>

definition calculateBasicMetrics :: "Point list \<Rightarrow> error + Totals" where
  "calculateBasicMetrics pts =
     (case fold (calculateBasicMetrics_step pts) [1..<length pts]
             (0, 0, \<lparr>minLat = PosInf, maxLat = NegInf, minLng = PosInf, maxLng = NegInf\<rparr>) of
        (totalDistance', totalElevationGain', b) \<Rightarrow>
          if pts = [] then Inl TypeError
          else
            let totalTime' = timeSpan pts;
                averagePace' =
                  (if 0 < totalTime' then jsdiv totalTime' totalDistance' else Num 0)
            in Inr \<lparr>t_totalDistance = totalDistance',
                    t_totalElevationGain = totalElevationGain',
                    t_totalTime = totalTime',
                    t_averagePace = averagePace',
                    t_averageHR = None,
                    t_maxHR = None,
                    t_bounds = b\<rparr>)"

subsection \<open>tcxParser.ts and the binary adapter: the loop with heart rate\<close>

text \<open>
  The loops of \<open>calculateTCXMetrics\<close> and \<open>calculateMetricsFromFIT\<close> have the same
  body. One iteration, on the state
  \<open>(totalDistance, totalElevationGain, bounds, hrSum, hrCount, maxHR)\<close>; \<open>if (curr.hr)\<close>
  is false for a heart rate that is absent or 0.
\<close>

definition hrMetrics_step ::
  "Point list \<Rightarrow> nat \<Rightarrow> real \<times> real \<times> Bounds \<times> real \<times> nat \<times> real \<Rightarrow>
   real \<times> real \<times> Bounds \<times> real \<times> nat \<times> real" where
  "hrMetrics_step pts i st =
     (case st of (totalDistance', totalElevationGain', b, hrSum, hrCount, maxHR') \<Rightarrow>
        let prev = pts ! (i - 1);
            curr = pts ! i;
            b' = \<lparr>minLat = jsmin (minLat b) (lat curr), maxLat = jsmax (maxLat b) (lat curr),
                  minLng = jsmin (minLng b) (lng curr), maxLng = jsmax (maxLng b) (lng curr)\<rparr>
        in (case hr curr of
              Some h \<Rightarrow>
                if h \<noteq> 0
                then (totalDistance' + haversineDistance prev curr,
                      totalElevationGain' + elevationGainStep prev curr,
                      b', hrSum + h, hrCount + 1, max maxHR' h)
                else (totalDistance' + haversineDistance prev curr,
                      totalElevationGain' + elevationGainStep prev curr,
                      b', hrSum, hrCount, maxHR')
            | None \<Rightarrow>
                (totalDistance' + haversineDistance prev curr,
                 totalElevationGain' + elevationGainStep prev curr,
                 b', hrSum, hrCount, maxHR')))"

definition hrMetrics_loop ::
  "Point list \<Rightarrow> real \<times> real \<times> Bounds \<times> real \<times> nat \<times> real" where
  "hrMetrics_loop pts =
     fold (hrMetrics_step pts) [1..<length pts]
       (0, 0, \<lparr>minLat = PosInf, maxLat = NegInf, minLng = PosInf, maxLng = NegInf\<rparr>, 0, 0, 0)"

section \<open>The route adapter (gpxParser.ts)\<close>

text \<open>
  The input is the GeoJSON that the \<open>togeojson\<close> library makes of the document. A
  position is \<open>[lng, lat, ele]\<close>, the elevation optional. \<open>coordTimes\<close> holds the
  parsed time of each position, \<open>None\<close> for an entry that is absent or falsy.
\<close>

type_synonym coord = "real \<times> real \<times> real option"

datatype geometry = LineString "coord list" | MultiLineString "coord list list" | OtherGeometry

record Feature =
  geometry :: geometry
  prop_name :: "string option"
  prop_time :: "date option"
  prop_coordTimes :: "date option list option"

text \<open>The point pushed for position \<open>i\<close> of a line.\<close>

definition gpxPoint :: "Feature \<Rightarrow> coord list \<Rightarrow> nat \<Rightarrow> Point" where
  "gpxPoint feature lineString i =
     (case lineString ! i of (c0, c1, c2) \<Rightarrow>
        \<lparr>lat = c1, lng = c0, ele = c2,
         time =
           (case prop_coordTimes feature of
              Some coordTimes \<Rightarrow> (if i < length coordTimes then coordTimes ! i else None)
            | None \<Rightarrow> None),
         hr = None, cadence = None, powerW = None, temp = None\<rparr>)"

text \<open>
  One iteration of the loop over the features, on the state \<open>(points, name, date)\<close>.
\<close>

definition parseGPXFile_step ::
  "Feature \<Rightarrow> Point list \<times> string \<times> date option \<Rightarrow> Point list \<times> string \<times> date option" where
  "parseGPXFile_step feature st =
     (case st of (pts, name', date') \<Rightarrow>
        (case (case geometry feature of
                 LineString cs \<Rightarrow> Some [cs]
               | MultiLineString css \<Rightarrow> Some css
               | OtherGeometry \<Rightarrow> None) of
           None \<Rightarrow> (pts, name', date')
         | Some coords \<Rightarrow>
             (fold (\<lambda>lineString acc.
                      fold (\<lambda>i acc'. acc' @ [gpxPoint feature lineString i])
                        [0..<length lineString] acc)
                coords pts,
              (if truthy_string (prop_name feature) then the (prop_name feature) else name'),
              (case prop_time feature of Some t \<Rightarrow> Some t | None \<Rightarrow> date'))))"

text \<open>
  \<open>features\<close> is \<open>geoJson.features\<close>, \<open>None\<close> where it is absent.
\<close>

definition parseGPXFile :: "string \<Rightarrow> Feature list option \<Rightarrow> error + Activity" where
  "parseGPXFile fileName features =
     (case features of
        None \<Rightarrow> Inl (Error ''No tracks found in GPX file'')
      | Some fs \<Rightarrow>
          if length fs = 0 then Inl (Error ''No tracks found in GPX file'')
          else
            (case fold parseGPXFile_step fs ([], remove_first ''.gpx'' fileName, None) of
               (pts, name', date') \<Rightarrow>
                 if length pts = 0 then Inl (Error ''No valid track points found in GPX file'')
                 else
                   (case calculateBasicMetrics pts of
                      Inl e \<Rightarrow> Inl e
                    | Inr m \<Rightarrow>
                        Inr \<lparr>name = name', date = date', points = pts,
                             totalDistance = t_totalDistance m,
                             totalElevationGain = t_totalElevationGain m,
                             totalTime = t_totalTime m,
                             averagePace = t_averagePace m,
                             averageHR = None, maxHR = None,
                             bounds = t_bounds m\<rparr>)))"

section \<open>The training-session adapter (tcxParser.ts)\<close>

text \<open>
  The input is the tree that the XML parser makes of the document, with
  \<open>Array.isArray(x) ? x : [x]\<close> applied. The two coordinates of a position are the
  results of \<open>parseFloat\<close>, \<open>None\<close> for \<open>NaN\<close>. A field that is absent is \<open>None\<close>.
\<close>

record Trackpoint =
  tp_Position :: "(real option \<times> real option) option"
  tp_AltitudeMeters :: "real option"
  tp_Time :: "date option"
  tp_HeartRateBpm_Value :: "real option"
  tp_Cadence :: "real option"
  tp_Extensions_TPX_Watts :: "real option"
  tp_Watts :: "real option"

record Lap =
  lap_Track_Trackpoint :: "Trackpoint list option"
  lap_DistanceMeters :: "real option"
  lap_TotalTimeSeconds :: "real option"

record TcxActivity =
  act_Sport :: "string option"
  act_Id :: "date option"
  act_Lap :: "Lap list option"

text \<open>
  \<open>parseInt\<close> of a number reads the integer at the start of the number's string.
  The string is in decimal notation for \<open>1e-6 \<le> |v| < 1e21\<close>, and the integer is
  then the digits before the decimal point; otherwise the string is in exponent
  notation, and the integer is its first digit, with the sign.
\<close>

definition parseInt :: "real \<Rightarrow> real" where
  "parseInt v =
     (if v = 0 then 0
      else if 1 / 10 ^ 6 \<le> \<bar>v\<bar> \<and> \<bar>v\<bar> < 10 ^ 21
      then (if 0 \<le> v then of_int \<lfloor>v\<rfloor> else of_int \<lceil>v\<rceil>)
      else sgn v * of_int \<lfloor>\<bar>v\<bar> / 10 powr of_int \<lfloor>log 10 \<bar>v\<bar>\<rfloor>\<rfloor>)"

text \<open>\<open>x ? f(x) : undefined\<close>.\<close>

definition when_truthy :: "(real \<Rightarrow> real) \<Rightarrow> real option \<Rightarrow> real option" where
  "when_truthy f x = (case x of Some v \<Rightarrow> (if v \<noteq> 0 then Some (f v) else None) | None \<Rightarrow> None)"

text \<open>
  One iteration of the loop over the trackpoints of a lap, on the list \<open>points\<close>: a
  trackpoint without position is skipped, and a point is pushed when neither coordinate
  is \<open>NaN\<close>.
\<close>

definition tcxTrackpoint_step :: "Trackpoint \<Rightarrow> Point list \<Rightarrow> Point list" where
  "tcxTrackpoint_step tp pts =
     (case tp_Position tp of
        None \<Rightarrow> pts
      | Some (latitude, longitude) \<Rightarrow>
          (case (latitude, longitude) of
             (Some la, Some lo) \<Rightarrow>
               pts @
               [\<lparr>lat = la, lng = lo,
                 ele = when_truthy (\<lambda>v. v) (tp_AltitudeMeters tp),
                 time = tp_Time tp,
                 hr = when_truthy parseInt (tp_HeartRateBpm_Value tp),
                 cadence = when_truthy parseInt (tp_Cadence tp),
                 powerW =
                   (if truthy (tp_Extensions_TPX_Watts tp) then tp_Extensions_TPX_Watts tp
                    else if truthy (tp_Watts tp) then tp_Watts tp
                    else None),
                 temp = when_truthy (\<lambda>v. v) (tp_Extensions_TPX_Watts tp)\<rparr>]
           | _ \<Rightarrow> pts))"

definition tcxLap_step :: "Lap \<Rightarrow> Point list \<Rightarrow> Point list" where
  "tcxLap_step lap pts =
     (case lap_Track_Trackpoint lap of
        None \<Rightarrow> pts
      | Some trackpoints \<Rightarrow> fold tcxTrackpoint_step trackpoints pts)"

text \<open>
  \<open>calculateTCXMetrics\<close>. The pace divides by \<open>activityDistance / 1000\<close>, which is
  zero when no lap declares a distance.
\<close>

definition calculateTCXMetrics :: "Point list \<Rightarrow> TcxActivity \<Rightarrow> error + Totals" where
  "calculateTCXMetrics pts activity =
     (case hrMetrics_loop pts of
        (totalDistance', totalElevationGain', b, hrSum, hrCount, maxHR') \<Rightarrow>
          let activityDistance =
                (case act_Lap activity of
                   Some laps \<Rightarrow> foldl (\<lambda>s lap. s + or_else (lap_DistanceMeters lap) 0) 0 laps
                 | None \<Rightarrow> totalDistance');
              activityTime0 =
                (case act_Lap activity of
                   Some laps \<Rightarrow> foldl (\<lambda>s lap. s + or_else (lap_TotalTimeSeconds lap) 0) 0 laps
                 | None \<Rightarrow> 0)
          in if activityTime0 = 0 \<and> pts = [] then Inl TypeError
             else
               let activityTime = (if activityTime0 = 0 then timeSpan pts else activityTime0);
                   averagePace' =
                     (if 0 < activityTime then jsdiv activityTime (activityDistance / 1000)
                      else Num 0)
               in Inr \<lparr>t_totalDistance =
                         (if activityDistance \<noteq> 0 then activityDistance else totalDistance'),
                       t_totalElevationGain = totalElevationGain',
                       t_totalTime = activityTime,
                       t_averagePace = averagePace',
                       t_averageHR = (if 0 < hrCount then Some (hrSum / real hrCount) else None),
                       t_maxHR = (if 0 < maxHR' then Some maxHR' else None),
                       t_bounds = b\<rparr>)"

text \<open>
  \<open>activities\<close> is \<open>database.Activities?.Activity || database.Activity\<close> as a list,
  \<open>None\<close> where it is absent. Reading a field of the first activity of an empty list
  throws a \<open>TypeError\<close>.
\<close>

definition parseTCXFile :: "string \<Rightarrow> TcxActivity list option \<Rightarrow> error + Activity" where
  "parseTCXFile fileName activities =
     (case activities of
        None \<Rightarrow> Inl (Error ''No activities found in TCX file'')
      | Some [] \<Rightarrow> Inl TypeError
      | Some (activity # _) \<Rightarrow>
          let name' = (if truthy_string (act_Sport activity) then the (act_Sport activity)
                       else remove_first ''.tcx'' fileName);
              date' = act_Id activity;
              laps = (case act_Lap activity of Some ls \<Rightarrow> ls | None \<Rightarrow> []);
              pts = fold tcxLap_step laps []
          in if length pts = 0 then Inl (Error ''No valid track points found in TCX file'')
             else
               (case calculateTCXMetrics pts activity of
                  Inl e \<Rightarrow> Inl e
                | Inr m \<Rightarrow>
                    Inr \<lparr>name = name', date = date', points = pts,
                         totalDistance = t_totalDistance m,
                         totalElevationGain = t_totalElevationGain m,
                         totalTime = t_totalTime m,
                         averagePace = t_averagePace m,
                         averageHR = t_averageHR m, maxHR = t_maxHR m,
                         bounds = t_bounds m\<rparr>))"

section \<open>The binary-telemetry adapter\<close>

text \<open>
  The input is the decoder of the FIT library, of which the parser calls
  \<open>checkIntegrity()\<close> and \<open>read()\<close>: the model holds the result of each call. The
  calls that the parser makes, in their order, are returned with the parser's result.
\<close>

record FitRecord =
  rec_positionLat :: "real option"
  rec_position_lat :: "real option"
  rec_enhancedLatitude :: "real option"
  rec_positionLong :: "real option"
  rec_position_long :: "real option"
  rec_enhancedLongitude :: "real option"
  rec_altitude :: "real option"
  rec_enhancedAltitude :: "real option"
  rec_enhanced_altitude :: "real option"
  rec_timestamp :: "date option"
  rec_heartRate :: "real option"
  rec_heart_rate :: "real option"
  rec_cadence :: "real option"
  rec_power :: "real option"
  rec_temperature :: "real option"

record SessionMesg =
  ses_startTime :: "date option"
  ses_sport :: "string option"
  ses_totalDistance :: "real option"
  ses_totalAscent :: "real option"
  ses_totalElapsedTime :: "real option"
  ses_totalTimerTime :: "real option"
  ses_avgHeartRate :: "real option"
  ses_maxHeartRate :: "real option"

record SportMesg =
  sport_name :: "string option"
  sport_sport :: "string option"

record FitMessages =
  sessionMesgs :: "SessionMesg list option"
  sportMesgs :: "SportMesg list option"
  recordMesgs :: "FitRecord list option"

record Decoder =
  checkIntegrity :: bool
  read_messages :: FitMessages

datatype decoder_call = Call_checkIntegrity | Call_read

text \<open>
  \<open>convertSemicirclesToDegrees\<close>: \<open>NaN\<close>, here \<open>None\<close>, for an absent value.
\<close>

definition convertSemicirclesToDegrees :: "real option \<Rightarrow> real option" where
  "convertSemicirclesToDegrees semicircles =
     (case semicircles of None \<Rightarrow> None | Some s \<Rightarrow> Some ((s * 180) / 2 ^ 31))"

text \<open>
  One iteration of the loop over the records, on the list \<open>points\<close>: a point is
  pushed when neither converted coordinate is \<open>NaN\<close>.
\<close>

definition fitRecord_step :: "FitRecord \<Rightarrow> Point list \<Rightarrow> Point list" where
  "fitRecord_step msg pts =
     (let latitude =
            convertSemicirclesToDegrees
              (js_or (js_or (rec_positionLat msg) (rec_position_lat msg))
                 (rec_enhancedLatitude msg));
          longitude =
            convertSemicirclesToDegrees
              (js_or (js_or (rec_positionLong msg) (rec_position_long msg))
                 (rec_enhancedLongitude msg))
      in case (latitude, longitude) of
           (Some la, Some lo) \<Rightarrow>
             pts @
             [\<lparr>lat = la, lng = lo,
               ele =
                 js_or (js_or (rec_altitude msg) (rec_enhancedAltitude msg))
                   (rec_enhanced_altitude msg),
               time = rec_timestamp msg,
               hr = js_or (rec_heartRate msg) (rec_heart_rate msg),
               cadence = rec_cadence msg,
               powerW = rec_power msg,
               temp = rec_temperature msg\<rparr>]
         | _ \<Rightarrow> pts)"

definition calculateMetricsFromFIT :: "Point list \<Rightarrow> error + Totals" where
  "calculateMetricsFromFIT pts =
     (case hrMetrics_loop pts of
        (totalDistance', totalElevationGain', b, hrSum, hrCount, maxHR') \<Rightarrow>
          if pts = [] then Inl TypeError
          else
            let totalTime' = timeSpan pts;
                averagePace' =
                  (if 0 < totalTime' then jsdiv totalTime' totalDistance' else Num 0)
            in Inr \<lparr>t_totalDistance = totalDistance',
                    t_totalElevationGain = totalElevationGain',
                    t_totalTime = totalTime',
                    t_averagePace = averagePace',
                    t_averageHR = (if 0 < hrCount then Some (hrSum / real hrCount) else None),
                    t_maxHR = (if 0 < maxHR' then Some maxHR' else None),
                    t_bounds = b\<rparr>)"

text \<open>
  The part of \<open>parseFITFile\<close> after \<open>decoder.read()\<close>, on the messages read: the
  first session message if there is one, the name taken from the first sport message,
  the points of the record messages, and the object returned.
\<close>

definition fitSessionMessage :: "FitMessages \<Rightarrow> SessionMesg option" where
  "fitSessionMessage messages =
     (case sessionMesgs messages of
        Some (s # _) \<Rightarrow> Some s
      | _ \<Rightarrow> None)"

definition fitName :: "string \<Rightarrow> FitMessages \<Rightarrow> string" where
  "fitName fileName messages =
     (case sportMesgs messages of
        Some (sport # _) \<Rightarrow>
          if truthy_string (sport_name sport) then the (sport_name sport)
          else if truthy_string (sport_sport sport) then the (sport_sport sport)
          else remove_first ''.fit'' fileName
      | _ \<Rightarrow> remove_first ''.fit'' fileName)"

definition fitPoints :: "FitMessages \<Rightarrow> Point list" where
  "fitPoints messages =
     fold fitRecord_step (case recordMesgs messages of Some rs \<Rightarrow> rs | None \<Rightarrow> []) []"

definition fitActivity :: "string \<Rightarrow> Point list \<Rightarrow> SessionMesg option \<Rightarrow> Totals \<Rightarrow> Activity" where
  "fitActivity name' pts sessionMessage m =
     (case sessionMessage of
        None \<Rightarrow>
          \<lparr>name = name', date = None, points = pts,
           totalDistance = t_totalDistance m,
           totalElevationGain = t_totalElevationGain m,
           totalTime = t_totalTime m,
           averagePace = t_averagePace m,
           averageHR = t_averageHR m, maxHR = t_maxHR m,
           bounds = t_bounds m\<rparr>
      | Some s \<Rightarrow>
          \<lparr>name =
             (if truthy_string (ses_sport s) then the (ses_sport s) @ '' Activity'' else name'),
           date = ses_startTime s, points = pts,
           totalDistance = or_else (ses_totalDistance s) (t_totalDistance m),
           totalElevationGain = or_else (ses_totalAscent s) (t_totalElevationGain m),
           totalTime =
             or_else (js_or (ses_totalElapsedTime s) (ses_totalTimerTime s)) (t_totalTime m),
           averagePace = t_averagePace m,
           averageHR = js_or (ses_avgHeartRate s) (t_averageHR m),
           maxHR = js_or (ses_maxHeartRate s) (t_maxHR m),
           bounds = t_bounds m\<rparr>)"

definition parseFIT_messages :: "string \<Rightarrow> FitMessages \<Rightarrow> error + Activity" where
  "parseFIT_messages fileName messages =
     (let pts = fitPoints messages
      in if length pts = 0 then Inl (Error ''No valid track points found in FIT file'')
         else
           (case calculateMetricsFromFIT pts of
              Inl e \<Rightarrow> Inl e
            | Inr m \<Rightarrow>
                Inr (fitActivity (fitName fileName messages) pts (fitSessionMessage messages) m)))"

text \<open>
  \<open>parseFITFile\<close>: the integrity check, and when it fails the error, with no call of
  \<open>read()\<close>.
\<close>

definition parseFITFile :: "string \<Rightarrow> Decoder \<Rightarrow> (error + Activity) \<times> decoder_call list" where
  "parseFITFile fileName decoder =
     (if \<not> checkIntegrity decoder
      then (Inl (Error ''FIT file integrity check failed''), [Call_checkIntegrity])
      else (parseFIT_messages fileName (read_messages decoder), [Call_checkIntegrity, Call_read]))"

section \<open>Quantities used to state the properties of the adapters\<close>








definition coordsOf :: "Point list \<Rightarrow> (real \<times> real) list" where
  "coordsOf pts = map (\<lambda>p. (lat p, lng p)) pts"

text \<open>
  The session summary of the FIT messages gives no distance and no time: there is no
  session message, or its \<open>totalDistance\<close>, \<open>totalElapsedTime\<close> and \<open>totalTimerTime\<close>
  are absent or 0.
\<close>

definition fitTotalsAbsent :: "FitMessages \<Rightarrow> bool" where
  "fitTotalsAbsent messages =
     (case fitSessionMessage messages of
        Some s \<Rightarrow>
          \<not> truthy (ses_totalDistance s) \<and> \<not> truthy (ses_totalElapsedTime s) \<and>
          \<not> truthy (ses_totalTimerTime s)
      | None \<Rightarrow> True)"

text \<open>FIT records and a decoder for the examples.\<close>

definition sampleFitRecord :: "real \<Rightarrow> real \<Rightarrow> date option \<Rightarrow> FitRecord" where
  "sampleFitRecord la lo t =
     \<lparr>rec_positionLat = Some la, rec_position_lat = None, rec_enhancedLatitude = None,
      rec_positionLong = Some lo, rec_position_long = None, rec_enhancedLongitude = None,
      rec_altitude = None, rec_enhancedAltitude = None, rec_enhanced_altitude = None,
      rec_timestamp = t, rec_heartRate = None, rec_heart_rate = None, rec_cadence = None,
      rec_power = None, rec_temperature = None\<rparr>"

definition sampleDecoder :: "bool \<Rightarrow> FitRecord list \<Rightarrow> Decoder" where
  "sampleDecoder ok records =
     \<lparr>checkIntegrity = ok,
      read_messages = \<lparr>sessionMesgs = None, sportMesgs = None, recordMesgs = Some records\<rparr>\<rparr>"

text \<open>
  Inputs for the examples: a TCX trackpoint with a position and a time only, a TCX
  document of one activity with one lap, and a GPX feature of one line.
\<close>

definition sampleTrackpoint :: "real option \<Rightarrow> real option \<Rightarrow> date option \<Rightarrow> Trackpoint" where
  "sampleTrackpoint la lo t =
     \<lparr>tp_Position = Some (la, lo), tp_AltitudeMeters = None, tp_Time = t,
      tp_HeartRateBpm_Value = None, tp_Cadence = None, tp_Extensions_TPX_Watts = None,
      tp_Watts = None\<rparr>"

definition sampleTcx :: "Trackpoint list \<Rightarrow> real option \<Rightarrow> real option \<Rightarrow> TcxActivity list option" where
  "sampleTcx tps declaredDistance declaredTime =
     Some [\<lparr>act_Sport = None, act_Id = None,
            act_Lap = Some [\<lparr>lap_Track_Trackpoint = Some tps,
                              lap_DistanceMeters = declaredDistance,
                              lap_TotalTimeSeconds = declaredTime\<rparr>]\<rparr>]"

definition sampleLine :: "coord list \<Rightarrow> date option list \<Rightarrow> Feature list option" where
  "sampleLine cs coordTimes =
     Some [\<lparr>geometry = LineString cs, prop_name = None, prop_time = None,
            prop_coordTimes = Some coordTimes\<rparr>]"

section \<open>Properties of the geodesic distance\<close>

text \<open>
  In exact arithmetic the radicand lies in [0,1], so that the \<open>NaN\<close> of
  \<open>haversine_of_radicand\<close> can only come from the rounding of binary64.
\<close>

lemma cos_prod_eq: "cos (A - u) * cos (A + u) = (cos A)\<^sup>2 - (sin u)\<^sup>2" for A u :: real
proof -
  have sq: "(a + b) * (a - b) = a\<^sup>2 - b\<^sup>2" for a b :: real
    by (simp add: power2_eq_square algebra_simps)
  have sA: "(sin A)\<^sup>2 = 1 - (cos A)\<^sup>2"
    by (simp add: sin_squared_eq)
  have cu: "(cos u)\<^sup>2 = 1 - (sin u)\<^sup>2"
    by (simp add: cos_squared_eq)
  have "cos (A - u) * cos (A + u) = (cos A * cos u)\<^sup>2 - (sin A * sin u)\<^sup>2"
    unfolding cos_add cos_diff by (rule sq)
  also have "\<dots> = (cos A)\<^sup>2 * (cos u)\<^sup>2 - (sin A)\<^sup>2 * (sin u)\<^sup>2"
    by (simp only: power_mult_distrib)
  also have "\<dots> = (cos A)\<^sup>2 - (sin u)\<^sup>2"
    unfolding sA cu by (simp add: algebra_simps)
  finally show ?thesis .
qed

lemma haversine_a_alt:
  "haversine_a p1 p2 =
     (sin ((lat p2 - lat p1) * pi / 360))\<^sup>2 * (1 - (sin ((lng p2 - lng p1) * pi / 360))\<^sup>2) +
     (cos ((lat p1 + lat p2) * pi / 360))\<^sup>2 * (sin ((lng p2 - lng p1) * pi / 360))\<^sup>2"
proof -
  define A where "A = (lat p1 + lat p2) * pi / 360"
  define u where "u = (lat p2 - lat p1) * pi / 360"
  have 1: "lat p1 * pi / 180 = A - u" and 2: "lat p2 * pi / 180 = A + u"
    by (simp_all add: A_def u_def field_simps)
  have "haversine_a p1 p2 = (sin u)\<^sup>2 + cos (A - u) * cos (A + u) * (sin ((lng p2 - lng p1) * pi / 360))\<^sup>2"
    unfolding haversine_a_def Let_def 1 2 by (simp add: u_def power2_eq_square)
  then show ?thesis
    unfolding cos_prod_eq A_def u_def by (simp add: algebra_simps)
qed

lemma haversine_a_range: "0 \<le> haversine_a p1 p2 \<and> haversine_a p1 p2 \<le> 1"
proof -
  define s where "s = (sin ((lng p2 - lng p1) * pi / 360))\<^sup>2"
  define x where "x = (sin ((lat p2 - lat p1) * pi / 360))\<^sup>2"
  define y where "y = (cos ((lat p1 + lat p2) * pi / 360))\<^sup>2"
  have s: "0 \<le> s" "s \<le> 1" and x: "0 \<le> x" "x \<le> 1" and y: "0 \<le> y" "y \<le> 1"
    by (simp_all add: s_def x_def y_def abs_square_le_1)
  have eq: "haversine_a p1 p2 = x * (1 - s) + y * s"
    by (simp add: haversine_a_alt s_def x_def y_def)
  have "0 \<le> x * (1 - s) + y * s"
    using s x y by simp
  moreover have "x * (1 - s) \<le> 1 - s"
    using mult_right_mono [of x 1 "1 - s"] s x by simp
  moreover have "y * s \<le> s"
    using mult_right_mono [of y 1 s] s y by simp
  ultimately show ?thesis
    unfolding eq by linarith
qed

lemma haversine_of_radicand_exact:
  "haversine_of_radicand (haversine_a p1 p2) = Num (haversineDistance p1 p2)"
  using haversine_a_range [of p1 p2]
  by (simp add: haversine_of_radicand_def haversineDistance_def Let_def)

lemma haversine_of_radicand_above_one: "haversine_of_radicand (1 + 1 / 2 ^ 52) = NaN"
  by (simp add: haversine_of_radicand_def)

section \<open>Properties of the metrics engine\<close>

lemma smoothValue_loop_total:
  assumes "\<forall>i\<in>set is. i < length pts \<and> numberField f (pts ! i) \<noteq> None"
  shows "smoothValue_loop pts f is (s, c) =
           Some (s + sum_list (map (\<lambda>i. the (numberField f (pts ! i))) is), c + length is)"
  using assms by (induction "is" arbitrary: s c) (auto simp: algebra_simps)

lemma smoothValue_pace:
  "smoothValue ps (length ps) F_pace v (2 * h) = Some (trailingAverage ProcessedPoint.pace ps (length ps) h v)"
proof -
  have "smoothValue_loop ps F_pace [length ps - h..<length ps] (v, 1) =
          Some (v + sum_list (map (\<lambda>i. the (numberField F_pace (ps ! i))) [length ps - h..<length ps]),
                1 + length [length ps - h..<length ps])"
    by (rule smoothValue_loop_total) simp
  moreover have "length ps - (length ps - h) = min (length ps) h"
    by arith
  ultimately show ?thesis
    by (auto simp: smoothValue_def trailingAverage_def Let_def)
qed

lemma smoothValue_grade:
  "smoothValue ps (length ps) F_grade v (2 * h + 1) = Some (trailingAverage ProcessedPoint.grade ps (length ps) h v)"
proof -
  have "smoothValue_loop ps F_grade [length ps - h..<length ps] (v, 1) =
          Some (v + sum_list (map (\<lambda>i. the (numberField F_grade (ps ! i))) [length ps - h..<length ps]),
                1 + length [length ps - h..<length ps])"
    by (rule smoothValue_loop_total) simp
  moreover have "length ps - (length ps - h) = min (length ps) h"
    by arith
  ultimately show ?thesis
    by (auto simp: smoothValue_def trailingAverage_def Let_def)
qed

lemma computeMetrics_step_eq:
  assumes "length processed = i"
  shows "computeMetrics_step pts i (processed, cum) =
     Some (processed @
             [Point.extend (pts ! i)
                (ProcessedPoint.fields (cum + rawSegmentDistance pts i)
                   (trailingAverage ProcessedPoint.pace processed i 5 (rawPace pts i))
                   (trailingAverage ProcessedPoint.grade processed i 2 (rawGrade pts i))
                   (rawSpeed pts i) None None None)],
           cum + rawSegmentDistance pts i)"
proof -
  have p: "smoothValue processed i F_pace v 10 = Some (trailingAverage ProcessedPoint.pace processed i 5 v)" for v
    using smoothValue_pace [of processed v 5] assms by simp
  have g: "smoothValue processed i F_grade v 5 = Some (trailingAverage ProcessedPoint.grade processed i 2 v)" for v
    using smoothValue_grade [of processed v 2] assms by simp
  show ?thesis
  proof (cases "0 < i")
    case True
    then show ?thesis
      unfolding computeMetrics_step_def
      by (simp add: p g Let_def rawSegmentDistance_def rawPace_def rawGrade_def rawSpeed_def
          rawTimeDelta_def rawElevationDelta_def cong: option.case_cong)
  next
    case False
    then have i0: "i = 0"
      by simp
    show ?thesis
      unfolding computeMetrics_step_def
      by (simp add: i0 p [unfolded i0] g [unfolded i0] Let_def rawSegmentDistance_def rawPace_def rawGrade_def rawSpeed_def
          rawTimeDelta_def rawElevationDelta_def cong: option.case_cong)
  qed
qed

lemma computeMetrics_loop_snoc:
  "computeMetrics_loop pts (xs @ [i]) st =
     (case computeMetrics_loop pts xs st of None \<Rightarrow> None | Some st' \<Rightarrow> computeMetrics_step pts i st')"
  by (induction xs arbitrary: st) (auto split: option.splits)


lemma computeMetrics_loop_append:
  "computeMetrics_loop pts (xs @ ys) st =
     (case computeMetrics_loop pts xs st of None \<Rightarrow> None | Some st' \<Rightarrow> computeMetrics_loop pts ys st')"
  by (induction xs arbitrary: st) (auto split: option.splits)

lemma trailingAverage_append:
  assumes "i \<le> length ps"
  shows "trailingAverage f (ps @ qs) i h v = trailingAverage f ps i h v"
proof -
  have eq: "map (\<lambda>k. f ((ps @ qs) ! k)) [i - h..<i] = map (\<lambda>k. f (ps ! k)) [i - h..<i]"
    using assms by (intro map_cong) (auto simp: nth_append)
  show ?thesis
    unfolding trailingAverage_def eq by (rule refl)
qed

lemma processedAt_append: "i \<le> length ps \<Longrightarrow> processedAt pts (ps @ qs) i = processedAt pts ps i"
  by (simp add: processedAt_def trailingAverage_append)

lemma computeMetrics_loop_closed:
  "\<exists>ps. computeMetrics_loop pts [0..<n] ([], 0) = Some (ps, sum (rawSegmentDistance pts) {..<n}) \<and>
        length ps = n \<and> (\<forall>i<n. ps ! i = processedAt pts ps i)"
proof (induction n)
  case 0
  show ?case by simp
next
  case (Suc n)
  then obtain ps where loop: "computeMetrics_loop pts [0..<n] ([], 0) = Some (ps, sum (rawSegmentDistance pts) {..<n})"
    and len: "length ps = n" and nth: "\<forall>i<n. ps ! i = processedAt pts ps i"
    by blast
  define q where "q = processedAt pts ps n"
  have cum: "sum (rawSegmentDistance pts) {..<n} + rawSegmentDistance pts n = sum (rawSegmentDistance pts) {..n}"
    by (simp add: lessThan_Suc_atMost [symmetric])
  have step: "computeMetrics_step pts n (ps, sum (rawSegmentDistance pts) {..<n}) =
                Some (ps @ [q], sum (rawSegmentDistance pts) {..<Suc n})"
    unfolding computeMetrics_step_eq [OF len] q_def processedAt_def cum
    by (simp add: lessThan_Suc_atMost)
  have "computeMetrics_loop pts [0..<Suc n] ([], 0) = Some (ps @ [q], sum (rawSegmentDistance pts) {..<Suc n})"
    using loop step by (simp add: computeMetrics_loop_snoc)
  moreover have "(ps @ [q]) ! i = processedAt pts (ps @ [q]) i" if "i < Suc n" for i
  proof (cases "i < n")
    case True
    then show ?thesis
      using nth len by (simp add: nth_append processedAt_append)
  next
    case False
    with that have i: "i = length ps"
      using len by simp
    have "(ps @ [q]) ! length ps = q"
      by simp
    moreover have "processedAt pts (ps @ [q]) (length ps) = q"
      unfolding q_def len [symmetric] by (simp add: processedAt_append)
    ultimately show ?thesis
      unfolding i by simp
  qed
  ultimately show ?case
    using len by auto
qed

lemma computeMetrics_closed:
  "\<exists>ps. computeMetrics pts = Some ps \<and> length ps = length pts \<and>
        (\<forall>i<length pts. ps ! i = processedAt pts ps i)"
  using computeMetrics_loop_closed [of pts "length pts"] by (auto simp: computeMetrics_def)

lemma truncate_processedAt: "Point.truncate (processedAt pts ps i) = pts ! i"
  by (simp add: processedAt_def Point.defs)

lemma distance_processedAt: "ProcessedPoint.distance (processedAt pts ps i) = sum (rawSegmentDistance pts) {..i}"
  by (simp add: processedAt_def Point.defs ProcessedPoint.defs)

lemma pace_processedAt: "ProcessedPoint.pace (processedAt pts ps i) = trailingAverage ProcessedPoint.pace ps i 5 (rawPace pts i)"
  by (simp add: processedAt_def Point.defs ProcessedPoint.defs)

lemma grade_processedAt: "ProcessedPoint.grade (processedAt pts ps i) = trailingAverage ProcessedPoint.grade ps i 2 (rawGrade pts i)"
  by (simp add: processedAt_def Point.defs ProcessedPoint.defs)

lemma raw_at_0: "rawSegmentDistance pts 0 = 0" "rawSpeed pts 0 = 0" "rawPace pts 0 = 0" "rawGrade pts 0 = 0"
  by (simp_all add: rawSegmentDistance_def rawSpeed_def rawPace_def rawGrade_def)

lemma trailingAverage_0: "trailingAverage f ps 0 h v = v"
  by (simp add: trailingAverage_def)

lemma normalizeMetrics_length: "length (normalizeMetrics ps) = length ps"
  by (simp add: normalizeMetrics_def Let_def)

lemma normalizeMetrics_nth:
  assumes "i < length ps"
  shows "Point.truncate (normalizeMetrics ps ! i) = Point.truncate (ps ! i)"
    and "ProcessedPoint.distance (normalizeMetrics ps ! i) = ProcessedPoint.distance (ps ! i)"
    and "ProcessedPoint.pace (normalizeMetrics ps ! i) = ProcessedPoint.pace (ps ! i)"
    and "ProcessedPoint.grade (normalizeMetrics ps ! i) = ProcessedPoint.grade (ps ! i)"
    and "hr (normalizeMetrics ps ! i) = hr (ps ! i)"
  using assms by (simp_all add: normalizeMetrics_def Let_def Point.defs)

lemma computeMetrics_step_take:
  assumes "i < m"
  shows "computeMetrics_step (take m pts) i st = computeMetrics_step pts i st"
proof -
  have nth: "take m pts ! i = pts ! i" "take m pts ! (i - 1) = pts ! (i - 1)"
    using assms by simp_all
  show ?thesis
    unfolding computeMetrics_step_def by (simp only: nth)
qed

lemma computeMetrics_loop_take:
  "\<forall>i\<in>set is. i < m \<Longrightarrow> computeMetrics_loop (take m pts) is st = computeMetrics_loop pts is st"
  by (induction "is" arbitrary: st) (auto simp: computeMetrics_step_take split: option.splits)

lemma computeMetrics_step_appends:
  "computeMetrics_step pts i (ps, c) = Some (ps', c') \<Longrightarrow> \<exists>q. ps' = ps @ [q]"
  unfolding computeMetrics_step_def by (auto simp: Let_def split: option.splits)

lemma computeMetrics_loop_prefix:
  "computeMetrics_loop pts is (ps, c) = Some (ps', c') \<Longrightarrow> take (length ps) ps' = ps"
proof (induction "is" arbitrary: ps c)
  case Nil
  then show ?case by simp
next
  case (Cons i "is")
  then obtain ps1 c1 where step: "computeMetrics_step pts i (ps, c) = Some (ps1, c1)"
    and rest: "computeMetrics_loop pts is (ps1, c1) = Some (ps', c')"
    by (auto split: option.splits)
  obtain q where q: "ps1 = ps @ [q]"
    using computeMetrics_step_appends [OF step] by blast
  have "take (length ps1) ps' = ps1"
    using Cons.IH [OF rest] .
  then have "take (length ps) (take (length ps1) ps') = take (length ps) ps1"
    by simp
  then show ?case
    by (simp add: q min_def)
qed

lemma computeMetrics_take:
  assumes "computeMetrics pts = Some ps" and "m \<le> length pts"
  shows "computeMetrics (take m pts) = Some (take m ps)"
proof -
  obtain qs where loop: "computeMetrics_loop pts [0..<m] ([], 0) = Some (qs, sum (rawSegmentDistance pts) {..<m})"
    and len: "length qs = m"
    using computeMetrics_loop_closed [of pts m] by blast
  have "[0..<length pts] = [0..<m] @ [m..<length pts]"
    using assms(2) by (metis le_add_diff_inverse upt_add_eq_append zero_le)
  then have "computeMetrics_loop pts [0..<length pts] ([], 0) =
               computeMetrics_loop pts [m..<length pts] (qs, sum (rawSegmentDistance pts) {..<m})"
    by (simp add: computeMetrics_loop_append loop)
  moreover obtain c where "computeMetrics_loop pts [0..<length pts] ([], 0) = Some (ps, c)"
    using assms(1) by (auto simp: computeMetrics_def)
  ultimately have "take (length qs) ps = qs"
    using computeMetrics_loop_prefix by metis
  moreover have "computeMetrics (take m pts) = Some qs"
    using assms(2) loop by (simp add: computeMetrics_def computeMetrics_loop_take min_def)
  ultimately show ?thesis
    by (simp add: len)
qed

lemma normalize_metric_range: "0 \<le> normalize_metric v mn mx \<and> normalize_metric v mn mx \<le> 1"
  by (simp add: normalize_metric_def)

lemma percentile_const:
  assumes "\<forall>x\<in>set xs. x = c" and "0 \<le> p" and "p < 1"
  shows "percentile xs p = (if xs = [] then 0 else c)"
proof (cases "xs = []")
  case True
  then show ?thesis
    by (simp add: percentile_def)
next
  case False
  have n: "0 < length xs"
    using False by simp
  have "real (length xs) * p < real (length xs)"
    using n assms(3) by simp
  then have hi: "\<lfloor>real (length xs) * p\<rfloor> < int (length xs)"
    by (simp add: floor_less_iff)
  have lo: "0 \<le> \<lfloor>real (length xs) * p\<rfloor>"
    using assms(2) by simp
  have "nat \<lfloor>real (length xs) * p\<rfloor> < length xs"
    using hi lo by linarith
  then have "sort xs ! nat \<lfloor>real (length xs) * p\<rfloor> \<in> set (sort xs)"
    by (intro nth_mem) simp
  then have "sort xs ! nat \<lfloor>real (length xs) * p\<rfloor> = c"
    using assms(1) by simp
  then show ?thesis
    using False hi lo by (simp add: percentile_def Let_def)
qed

lemma percentile_const_eq:
  assumes "\<forall>x\<in>set xs. x = c"
  shows "percentile xs (5 / 100) = percentile xs (95 / 100)"
  using percentile_const [OF assms, of "5 / 100"] percentile_const [OF assms, of "95 / 100"]
  by simp

lemma normalizeMetrics_fields:
  assumes "i < length ps"
  shows "normalizedPace (normalizeMetrics ps ! i) =
           Some (normalize_metric (ProcessedPoint.pace (ps ! i))
                   (percentile (pacePopulation ps) (5 / 100))
                   (percentile (pacePopulation ps) (95 / 100)))"
    and "normalizedHR (normalizeMetrics ps ! i) =
           (case hr (ps ! i) of
              Some h \<Rightarrow>
                if h \<noteq> 0
                then Some (normalize_metric h (percentile (hrPopulation ps) (5 / 100))
                             (percentile (hrPopulation ps) (95 / 100)))
                else None
            | None \<Rightarrow> None)"
    and "normalizedPower (normalizeMetrics ps ! i) =
           (case powerW (ps ! i) of
              Some w \<Rightarrow>
                if w \<noteq> 0
                then Some (normalize_metric w (percentile (powerPopulation ps) (5 / 100))
                             (percentile (powerPopulation ps) (95 / 100)))
                else None
            | None \<Rightarrow> None)"
proof -
  have mem: "ps ! i \<in> set ps"
    using assms by simp
  have hr_ne: "hrPopulation ps \<noteq> []" if "hr (ps ! i) = Some h" for h
    using mem that by (auto simp: hrPopulation_def filter_empty_conv)
  have pw_ne: "powerPopulation ps \<noteq> []" if "powerW (ps ! i) = Some w" for w
    using mem that by (auto simp: powerPopulation_def filter_empty_conv)
  show "normalizedPace (normalizeMetrics ps ! i) =
           Some (normalize_metric (ProcessedPoint.pace (ps ! i))
                   (percentile (pacePopulation ps) (5 / 100))
                   (percentile (pacePopulation ps) (95 / 100)))"
    using assms by (simp add: normalizeMetrics_def Let_def pacePopulation_def)
  show "normalizedHR (normalizeMetrics ps ! i) =
           (case hr (ps ! i) of
              Some h \<Rightarrow>
                if h \<noteq> 0
                then Some (normalize_metric h (percentile (hrPopulation ps) (5 / 100))
                             (percentile (hrPopulation ps) (95 / 100)))
                else None
            | None \<Rightarrow> None)"
    using assms hr_ne
    by (auto simp: normalizeMetrics_def Let_def hrPopulation_def split: option.splits)
  show "normalizedPower (normalizeMetrics ps ! i) =
           (case powerW (ps ! i) of
              Some w \<Rightarrow>
                if w \<noteq> 0
                then Some (normalize_metric w (percentile (powerPopulation ps) (5 / 100))
                             (percentile (powerPopulation ps) (95 / 100)))
                else None
            | None \<Rightarrow> None)"
    using assms pw_ne
    by (auto simp: normalizeMetrics_def Let_def powerPopulation_def split: option.splits)
qed

lemma findMaxHRSegment_step_skip:
  "hr (ps ! i) = None \<or> hr (ps ! i) = Some 0 \<Longrightarrow> findMaxHRSegment_step ps i st = st"
  by (cases st) (auto simp: findMaxHRSegment_step_def)

lemma findMaxHRSegment_fold_skip:
  assumes "\<forall>i<n. hr (ps ! i) = None \<or> hr (ps ! i) = Some 0"
  shows "fold (findMaxHRSegment_step ps) [0..<n] st = st"
  using assms by (induction n) (simp_all add: findMaxHRSegment_step_skip)

lemma findMaxHRSegment_no_hr:
  assumes "\<forall>p\<in>set ps. hr p = None \<or> hr p = Some 0"
  shows "findMaxHRSegment ps = None"
proof -
  have "fold (findMaxHRSegment_step ps) [0..<length ps] (0, - 1) = (0, - 1)"
    using assms by (intro findMaxHRSegment_fold_skip) simp
  then show ?thesis
    by (simp add: findMaxHRSegment_def)
qed

lemma hr_processedAt: "hr (processedAt pts ps i) = hr (pts ! i)"
  by (simp add: processedAt_def Point.defs)

lemma metricsEngine_hr:
  "\<exists>ps. metricsEngine pts = Some ps \<and> length ps = length pts \<and>
        (\<forall>i<length pts. hr (ps ! i) = hr (pts ! i))"
proof -
  obtain cs where cm: "computeMetrics pts = Some cs" and len: "length cs = length pts"
    and nth: "\<forall>i<length pts. cs ! i = processedAt pts cs i"
    using computeMetrics_closed [of pts] by blast
  have "hr (normalizeMetrics cs ! i) = hr (pts ! i)" if "i < length pts" for i
    using that nth len hr_processedAt [of pts cs i] by (simp add: normalizeMetrics_nth)
  then show ?thesis
    using cm len by (simp add: metricsEngine_def normalizeMetrics_length)
qed

text \<open>
  The metrics engine always returns, keeps the length and the order of the points, and
  makes index 0 the origin.
\<close>

lemma metricsEngine_length_order_origin:
  "\<exists>ps. metricsEngine pts = Some ps \<and> length ps = length pts \<and>
        (\<forall>i<length pts. Point.truncate (ps ! i) = pts ! i) \<and>
        (pts \<noteq> [] \<longrightarrow>
           ProcessedPoint.distance (ps ! 0) = 0 \<and> ProcessedPoint.pace (ps ! 0) = 0 \<and>
           ProcessedPoint.grade (ps ! 0) = 0)"
proof -
  obtain cs where cm: "computeMetrics pts = Some cs" and len: "length cs = length pts"
    and nth: "\<forall>i<length pts. cs ! i = processedAt pts cs i"
    using computeMetrics_closed [of pts] by blast
  define ps where "ps = normalizeMetrics cs"
  have 1: "metricsEngine pts = Some ps"
    by (simp add: metricsEngine_def cm ps_def)
  have 2: "length ps = length pts"
    by (simp add: ps_def normalizeMetrics_length len)
  have 3: "Point.truncate (ps ! i) = pts ! i" if "i < length pts" for i
    using that nth len by (simp add: ps_def normalizeMetrics_nth truncate_processedAt)
  have 5: "ProcessedPoint.distance (ps ! 0) = 0 \<and> ProcessedPoint.pace (ps ! 0) = 0 \<and>
           ProcessedPoint.grade (ps ! 0) = 0" if "pts \<noteq> []"
  proof -
    have 0: "0 < length pts"
      using that by simp
    then have "cs ! 0 = processedAt pts cs 0"
      using nth by blast
    then show ?thesis
      using 0 len
      by (simp add: ps_def normalizeMetrics_nth distance_processedAt pace_processedAt
          grade_processedAt trailingAverage_0 raw_at_0)
  qed
  show ?thesis
    using 1 2 3 5 by blast
qed

text \<open>
  The normalized pace of every point, and the normalized heart rate and power of a
  point whose raw value is not 0, are the clamped position of the raw value between
  the 5th and the 95th percentile of the population, and 0.5 when the two percentiles
  are equal; every normalized value lies in [0,1].
\<close>

lemma normalizeMetrics_nonzero_values:
  assumes "i < length ps"
  shows
    "normalizedPace (normalizeMetrics ps ! i) =
       Some (let v = ProcessedPoint.pace (ps ! i);
                 p5 = percentile (pacePopulation ps) (5 / 100);
                 p95 = percentile (pacePopulation ps) (95 / 100)
             in if p95 = p5 then 1 / 2 else max 0 (min 1 ((v - p5) / (p95 - p5)))) \<and>
     (\<forall>v. hr (ps ! i) = Some v \<and> v \<noteq> 0 \<longrightarrow>
        normalizedHR (normalizeMetrics ps ! i) =
          Some (let p5 = percentile (hrPopulation ps) (5 / 100);
                    p95 = percentile (hrPopulation ps) (95 / 100)
                in if p95 = p5 then 1 / 2 else max 0 (min 1 ((v - p5) / (p95 - p5))))) \<and>
     (\<forall>v. powerW (ps ! i) = Some v \<and> v \<noteq> 0 \<longrightarrow>
        normalizedPower (normalizeMetrics ps ! i) =
          Some (let p5 = percentile (powerPopulation ps) (5 / 100);
                    p95 = percentile (powerPopulation ps) (95 / 100)
                in if p95 = p5 then 1 / 2 else max 0 (min 1 ((v - p5) / (p95 - p5))))) \<and>
     (\<forall>x. normalizedPace (normalizeMetrics ps ! i) = Some x \<or>
          normalizedHR (normalizeMetrics ps ! i) = Some x \<or>
          normalizedPower (normalizeMetrics ps ! i) = Some x \<longrightarrow> 0 \<le> x \<and> x \<le> 1) \<and>
     ((\<forall>x\<in>set (pacePopulation ps). x = c) \<longrightarrow>
        normalizedPace (normalizeMetrics ps ! i) = Some (1 / 2)) \<and>
     ((\<forall>x\<in>set (hrPopulation ps). x = c) \<longrightarrow>
        (\<forall>x. normalizedHR (normalizeMetrics ps ! i) = Some x \<longrightarrow> x = 1 / 2)) \<and>
     ((\<forall>x\<in>set (powerPopulation ps). x = c) \<longrightarrow>
        (\<forall>x. normalizedPower (normalizeMetrics ps ! i) = Some x \<longrightarrow> x = 1 / 2))"
proof -
  note f = normalizeMetrics_fields [OF assms]
  have 1: "normalizedPace (normalizeMetrics ps ! i) =
       Some (let v = ProcessedPoint.pace (ps ! i);
                 p5 = percentile (pacePopulation ps) (5 / 100);
                 p95 = percentile (pacePopulation ps) (95 / 100)
             in if p95 = p5 then 1 / 2 else max 0 (min 1 ((v - p5) / (p95 - p5))))"
    by (simp add: f normalize_metric_def Let_def)
  have 2: "\<forall>v. hr (ps ! i) = Some v \<and> v \<noteq> 0 \<longrightarrow>
        normalizedHR (normalizeMetrics ps ! i) =
          Some (let p5 = percentile (hrPopulation ps) (5 / 100);
                    p95 = percentile (hrPopulation ps) (95 / 100)
                in if p95 = p5 then 1 / 2 else max 0 (min 1 ((v - p5) / (p95 - p5))))"
    by (simp add: f normalize_metric_def Let_def)
  have 3: "\<forall>v. powerW (ps ! i) = Some v \<and> v \<noteq> 0 \<longrightarrow>
        normalizedPower (normalizeMetrics ps ! i) =
          Some (let p5 = percentile (powerPopulation ps) (5 / 100);
                    p95 = percentile (powerPopulation ps) (95 / 100)
                in if p95 = p5 then 1 / 2 else max 0 (min 1 ((v - p5) / (p95 - p5))))"
    by (simp add: f normalize_metric_def Let_def)
  have 4: "\<forall>x. normalizedPace (normalizeMetrics ps ! i) = Some x \<or>
          normalizedHR (normalizeMetrics ps ! i) = Some x \<or>
          normalizedPower (normalizeMetrics ps ! i) = Some x \<longrightarrow> 0 \<le> x \<and> x \<le> 1"
    using normalize_metric_range by (auto simp: f split: option.splits if_splits)
  have 5: "normalizedPace (normalizeMetrics ps ! i) = Some (1 / 2)"
    if "\<forall>x\<in>set (pacePopulation ps). x = c"
    using percentile_const_eq [OF that] by (simp add: f normalize_metric_def)
  have 6: "\<forall>x. normalizedHR (normalizeMetrics ps ! i) = Some x \<longrightarrow> x = 1 / 2"
    if "\<forall>x\<in>set (hrPopulation ps). x = c"
    using percentile_const_eq [OF that]
    by (auto simp: f normalize_metric_def split: option.splits if_splits)
  have 7: "\<forall>x. normalizedPower (normalizeMetrics ps ! i) = Some x \<longrightarrow> x = 1 / 2"
    if "\<forall>x\<in>set (powerPopulation ps). x = c"
    using percentile_const_eq [OF that]
    by (auto simp: f normalize_metric_def split: option.splits if_splits)
  show ?thesis
    using 1 2 3 4 5 6 7 by blast
qed

section \<open>Properties of the segmentation engine\<close>

lemma find_upt_first:
  assumes "a \<le> j" and "j < n" and "P j" and "\<forall>i. a \<le> i \<and> i < j \<longrightarrow> \<not> P i"
  shows "find P [a..<n] = Some j"
proof -
  have "j - a < length [a..<n]" "[a..<n] ! (j - a) = j"
    using assms(1,2) by simp_all
  moreover have "\<forall>k<j - a. \<not> P ([a..<n] ! k)"
    using assms(1,2,4) by simp
  ultimately show ?thesis
    unfolding find_Some_iff using assms(3) by (intro exI [of _ "j - a"]) simp
qed

lemma find_upt_none:
  assumes "\<forall>i. a \<le> i \<and> i < n \<longrightarrow> \<not> P i"
  shows "find P [a..<n] = None"
  using assms by (simp add: find_None_iff)

lemma detectSplits_loop_spec:
  assumes "j \<le> length pts" and "start < j"
    and "acc = accumulatedSince pts start (j - 1)"
    and "\<forall>i. start < i \<and> i < j \<longrightarrow> \<not> sd \<le> accumulatedSince pts start i"
  shows "fst (fold (detectSplits_step pts sd) [j..<length pts] (splits, start, acc)) =
           splits @ spec_splits pts sd (length splits) start"
  using assms
proof (induction "length pts - j" arbitrary: j start acc splits)
  case 0
  then have j: "j = length pts"
    by simp
  have "find (\<lambda>i. sd \<le> accumulatedSince pts start i) [start + 1..<length pts] = None"
    using "0.prems"(4) j by (intro find_upt_none) simp
  then show ?case
    using j by simp
next
  case (Suc m)
  let ?d = "\<lambda>i. ProcessedPoint.distance (pts ! i)"
  let ?P = "\<lambda>i. sd \<le> accumulatedSince pts start i"
  have j: "j < length pts"
    using Suc.hyps(2) by simp
  have upt: "[j..<length pts] = j # [Suc j..<length pts]"
    using j by (simp add: upt_rec)
  have "[start + 1..<j + 1] = [start + 1..<j - 1 + 1] @ [j]"
    using Suc.prems(2) by (simp add: Suc_le_eq)
  then have acc': "acc + (?d j - ?d (j - 1)) = accumulatedSince pts start j"
    unfolding Suc.prems(3) accumulatedSince_def by simp
  show ?case
  proof (cases "?P j")
    case True
    define cs where "cs = closeSplit (length splits) (accumulatedSince pts start j) (slice pts start (j + 1))"
    have step: "detectSplits_step pts sd j (splits, start, acc) = (splits @ [cs], j, 0)"
      unfolding detectSplits_step_def prod.case Let_def acc' using True by (simp add: cs_def)
    have "fst (fold (detectSplits_step pts sd) [Suc j..<length pts] (splits @ [cs], j, 0)) =
            (splits @ [cs]) @ spec_splits pts sd (length (splits @ [cs])) j"
      using Suc.hyps(2) j by (intro Suc.hyps(1)) (auto simp: accumulatedSince_def)
    moreover have "find ?P [start + 1..<length pts] = Some j"
      using Suc.prems(2,4) j True by (intro find_upt_first) auto
    then have "spec_splits pts sd (length splits) start =
                 cs # spec_splits pts sd (length splits + 1) j"
      by (subst spec_splits.simps) (simp add: cs_def)
    ultimately show ?thesis
      by (simp add: upt step)
  next
    case False
    have step: "detectSplits_step pts sd j (splits, start, acc) = (splits, start, accumulatedSince pts start j)"
      unfolding detectSplits_step_def prod.case Let_def acc' using False by simp
    have "\<forall>i. start < i \<and> i < Suc j \<longrightarrow> \<not> ?P i"
      using Suc.prems(4) False by (auto simp: less_Suc_eq)
    then have "fst (fold (detectSplits_step pts sd) [Suc j..<length pts] (splits, start, accumulatedSince pts start j)) =
            splits @ spec_splits pts sd (length splits) start"
      using Suc.hyps(2) Suc.prems(2) j by (intro Suc.hyps(1)) auto
    then show ?thesis
      by (simp add: upt step)
  qed
qed

lemma detectSplits_eq_spec: "detectSplits pts sd = spec_splits pts sd 0 0"
proof (cases "pts = []")
  case True
  then show ?thesis
    by (subst spec_splits.simps) (simp add: detectSplits_def)
next
  case False
  then have "fst (fold (detectSplits_step pts sd) [1..<length pts] ([], 0, 0)) =
               [] @ spec_splits pts sd (length ([] :: Split list)) 0"
    by (intro detectSplits_loop_spec) (auto simp: Suc_le_eq accumulatedSince_def)
  then show ?thesis
    by (simp add: detectSplits_def)
qed


lemma accumulatedSince_telescope:
  "start \<le> i \<Longrightarrow>
   accumulatedSince pts start i =
     ProcessedPoint.distance (pts ! i) - ProcessedPoint.distance (pts ! start)"
proof (induction i)
  case 0
  then show ?case
    by (simp add: accumulatedSince_def)
next
  case (Suc i)
  show ?case
  proof (cases "start = Suc i")
    case True
    then show ?thesis
      by (simp add: accumulatedSince_def)
  next
    case False
    then have le: "start \<le> i"
      using Suc.prems by simp
    then have "[start + 1..<Suc i + 1] = [start + 1..<i + 1] @ [Suc i]"
      by simp
    then have "accumulatedSince pts start (Suc i) =
                 accumulatedSince pts start i +
                 (ProcessedPoint.distance (pts ! Suc i) - ProcessedPoint.distance (pts ! i))"
      unfolding accumulatedSince_def by simp
    then show ?thesis
      using Suc.IH [OF le] by simp
  qed
qed

section \<open>Evaluation of the examples\<close>

lemma sample_fields [simp]:
  "hr (samplePoint d h p) = h" "powerW (samplePoint d h p) = None"
  "ProcessedPoint.pace (samplePoint d h p) = p" "ProcessedPoint.distance (samplePoint d h p) = d"
  "ele (samplePoint d h p) = None" "Point.time (samplePoint d h p) = None"
  by (simp_all add: samplePoint_def Point.defs ProcessedPoint.defs)

lemma ex_pop:
  "pacePopulation [samplePoint 0 (Some 0) 0, samplePoint 100 (Some 100) 5, samplePoint 200 (Some 200) 6] = [5, 6]"
  "hrPopulation [samplePoint 0 (Some 0) 0, samplePoint 100 (Some 100) 5, samplePoint 200 (Some 200) 6] = [0, 100, 200]"
  by (simp_all add: pacePopulation_def hrPopulation_def)

lemma ex_perc:
  "percentile [5, 6] (1 / 20) = 5" "percentile [5, 6] (19 / 20) = 6"
  "percentile [0, 100, 200] (1 / 20) = 0" "percentile [0, 100, 200] (19 / 20) = 200"
  by (simp_all add: percentile_def Let_def)

section \<open>Properties of the adapters\<close>

lemma haversine_equator_half_turn:
  "haversineDistance
     \<lparr>lat = 0, lng = 0, ele = e1, time = t1, hr = h1, cadence = c1, powerW = w1, temp = x1\<rparr>
     \<lparr>lat = 0, lng = 180, ele = e2, time = t2, hr = h2, cadence = c2, powerW = w2, temp = x2\<rparr> =
   6371000 * pi"
  by (simp add: haversineDistance_def haversine_a_def atan2_def Let_def)


lemma coordsOf_append: "coordsOf (xs @ ys) = coordsOf xs @ coordsOf ys"
  by (simp add: coordsOf_def)








lemma parseInt_examples:
  "parseInt (1507 / 10) = 150" "parseInt (- (1507 / 10)) = - 150"
  by (simp_all add: parseInt_def)

lemma parseInt_exponent_notation:
  "parseInt (1 / 10 ^ 7) = 1" "parseInt (10 ^ 21) = 1"
proof -
  have g: "log 10 (10 ^ n) = real n" for n
    by (simp add: log_nat_power)
  have p: "(10::real) powr real n = 10 ^ n" for n
    by (simp add: powr_realpow)
  have a: "log 10 (1 / 10 ^ 7) = - 7"
    using g [of 7] by (simp add: log_divide)
  have c: "10 ^ 7 * (10::real) powr (- 7) = 1"
    using p [of 7] by (simp add: powr_minus_divide)
  have "\<lfloor>(1 / 10 ^ 7) / (10::real) powr of_int \<lfloor>log 10 \<bar>1 / 10 ^ 7\<bar>\<rfloor>\<rfloor> = 1"
    using a c by simp
  then show "parseInt (1 / 10 ^ 7) = 1"
    unfolding parseInt_def by simp
  have "\<lfloor>(10 ^ 21) / (10::real) powr of_int \<lfloor>log 10 \<bar>10 ^ 21\<bar>\<rfloor>\<rfloor> = 1"
    using g [of 21] p [of 21] by simp
  then show "parseInt (10 ^ 21) = 1"
    unfolding parseInt_def by simp
qed






lemma haversine_pole_to_pole:
  "haversineDistance
     \<lparr>lat = 90, lng = l, ele = e1, time = t1, hr = h1, cadence = c1, powerW = w1, temp = x1\<rparr>
     \<lparr>lat = - 90, lng = l, ele = e2, time = t2, hr = h2, cadence = c2, powerW = w2, temp = x2\<rparr> =
   6371000 * pi"
  by (simp add: haversineDistance_def haversine_a_def atan2_def Let_def)

lemma parseFITFile_Inr:
  "fst (parseFITFile fileName decoder) = Inr b \<Longrightarrow>
   parseFIT_messages fileName (read_messages decoder) = Inr b"
  by (simp add: parseFITFile_def split: if_splits)

lemma parseFIT_messages_Inr:
  assumes "parseFIT_messages fileName messages = Inr b"
  shows "\<exists>m. calculateMetricsFromFIT (fitPoints messages) = Inr m \<and>
             b = fitActivity (fitName fileName messages) (fitPoints messages)
                   (fitSessionMessage messages) m"
proof (cases "calculateMetricsFromFIT (fitPoints messages)")
  case (Inl e)
  then show ?thesis
    using assms by (simp add: parseFIT_messages_def Let_def split: if_splits)
next
  case (Inr m)
  then show ?thesis
    using assms by (simp add: parseFIT_messages_def Let_def split: if_splits)
qed


lemma fitActivity_averagePace: "averagePace (fitActivity n pts s m) = t_averagePace m"
  by (cases s) (simp_all add: fitActivity_def)

lemma fitActivity_totals_absent:
  assumes "case s of Some x \<Rightarrow> \<not> truthy (ses_totalDistance x) \<and> \<not> truthy (ses_totalElapsedTime x) \<and>
             \<not> truthy (ses_totalTimerTime x) | None \<Rightarrow> True"
  shows "totalTime (fitActivity n pts s m) = t_totalTime m"
    and "totalDistance (fitActivity n pts s m) = t_totalDistance m"
proof -
  have or: "\<not> truthy x \<Longrightarrow> or_else x d = d" for x d
    by (cases x) (simp_all add: or_else_def)
  have js: "\<not> truthy x \<Longrightarrow> js_or x y = y" for x y
    by (simp add: js_or_def)
  show "totalTime (fitActivity n pts s m) = t_totalTime m"
    using assms by (cases s) (simp_all add: fitActivity_def or js)
  show "totalDistance (fitActivity n pts s m) = t_totalDistance m"
    using assms by (cases s) (simp_all add: fitActivity_def or)
qed

lemma calculateMetricsFromFIT_pace:
  assumes "calculateMetricsFromFIT pts = Inr m"
  shows "t_averagePace m =
           (if 0 < t_totalTime m then jsdiv (t_totalTime m) (t_totalDistance m) else Num 0)"
proof -
  obtain d g b s c x where "hrMetrics_loop pts = (d, g, b, s, c, x)"
    by (metis prod_cases6)
  then show ?thesis
    using assms by (auto simp: calculateMetricsFromFIT_def Let_def split: if_splits)
qed

lemma calculateBasicMetrics_pace:
  assumes "calculateBasicMetrics pts = Inr m"
  shows "t_averagePace m =
           (if 0 < t_totalTime m then jsdiv (t_totalTime m) (t_totalDistance m) else Num 0)"
proof -
  obtain d g b where
    "fold (calculateBasicMetrics_step pts) [1..<length pts]
       (0, 0, \<lparr>minLat = PosInf, maxLat = NegInf, minLng = PosInf, maxLng = NegInf\<rparr>) = (d, g, b)"
    by (metis prod_cases3)
  then show ?thesis
    using assms by (auto simp: calculateBasicMetrics_def Let_def split: if_splits)
qed

lemma parseGPXFile_Inr:
  assumes "parseGPXFile fileName features = Inr a"
  shows "\<exists>fs m. features = Some fs \<and>
           calculateBasicMetrics (points a) = Inr m \<and>
           points a = fst (fold parseGPXFile_step fs ([], remove_first ''.gpx'' fileName, None)) \<and>
           averagePace a = t_averagePace m \<and> totalTime a = t_totalTime m \<and>
           totalDistance a = t_totalDistance m"
proof -
  obtain fs where fs: "features = Some fs" "fs \<noteq> []"
    using assms by (cases features) (auto simp: parseGPXFile_def split: if_splits)
  obtain pts n d where st: "fold parseGPXFile_step fs ([], remove_first ''.gpx'' fileName, None) = (pts, n, d)"
    by (metis prod_cases3)
  have ne: "pts \<noteq> []"
    using assms fs st by (auto simp: parseGPXFile_def)
  show ?thesis
  proof (cases "calculateBasicMetrics pts")
    case (Inl e)
    then show ?thesis
      using assms fs st ne by (simp add: parseGPXFile_def)
  next
    case (Inr m)
    then show ?thesis
      using assms fs st ne by (auto simp: parseGPXFile_def)
  qed
qed

section \<open>The claims\<close>

text \<open>
  C1: the metrics engine should return a sequence of the same length and order, with a
  cumulative distance that never decreases and a zero origin at index 0. Length, order
  and origin hold (\<open>metricsEngine_length_order_origin\<close>). The cumulative distance is
  a sum of geodesic distances, and in binary64 the geodesic distance from (2.5, 0) to
  (-2.5, 180) is \<open>NaN\<close> (see C9): on the points (2.5, 0), (-2.5, 180), (-2.5, 180) the
  program's cumulative distances are 0, \<open>NaN\<close>, \<open>NaN\<close>, which is not a
  non-decreasing sequence.
\<close>

text \<open>
  C2: \<open>detectSplits\<close> closes a split exactly at the first index at which the distance
  accumulated point by point since the last boundary reaches or exceeds
  \<open>splitDistance\<close>; the split spans the points from the previous boundary to that
  index, both included, and the accumulation starts again there; a trailing part that
  stays below \<open>splitDistance\<close> gives no split. On the activity sampled every 100 units
  over 2500 units, the splits are exactly two, closed at the indices 10 and 20 (the
  distances 1000 and 2000), and the last 500 units give none.
\<close>

theorem detectSplits_closes_at_boundaries:
  "detectSplits pts splitDistance = spec_splits pts splitDistance 0 0 \<and>
   detectSplits uniform2500 1000 =
     [closeSplit 0 1000 (slice uniform2500 0 11), closeSplit 1 1000 (slice uniform2500 10 21)] \<and>
   ProcessedPoint.distance (uniform2500 ! 10) = 1000 \<and>
   ProcessedPoint.distance (uniform2500 ! 20) = 2000 \<and>
   ProcessedPoint.distance (uniform2500 ! 25) = 2500 \<and> length uniform2500 = 26"
proof -
  have "detectSplits uniform2500 1000 =
     [closeSplit 0 1000 (slice uniform2500 0 11), closeSplit 1 1000 (slice uniform2500 10 21)]"
    by code_simp
  moreover have "ProcessedPoint.distance (uniform2500 ! 10) = 1000"
    "ProcessedPoint.distance (uniform2500 ! 20) = 2000"
    "ProcessedPoint.distance (uniform2500 ! 25) = 2500" "length uniform2500 = 26"
    by (simp_all add: uniform2500_def)
  ultimately show ?thesis
    using detectSplits_eq_spec [of pts splitDistance] by simp
qed




text \<open>
  C4 as stated, that for every adapter the recomputed \<open>averagePace\<close> is
  \<open>totalTime / totalDistance\<close>, does not hold. The GPX adapter, on two points whose
  timestamps decrease by 10 seconds, stores the pace 0, not \<open>-10 / totalDistance\<close>: the
  pace is computed only under the guard \<open>totalTime > 0\<close>. The TCX adapter, on two points
  10 seconds apart in a lap that declares no totals, stores the pace \<open>Infinity\<close>, since
  it divides by the declared lap distance, which is 0, and not by the recomputed
  \<open>totalDistance\<close> that it stores.
\<close>

theorem averagePace_guard_counterexample:
  "parseGPXFile ''route.gpx'' (sampleLine [(0, 0, None), (180, 0, None)] [Some 10000, Some 0]) =
     Inr \<lparr>name = ''route'', date = None,
          points =
            [\<lparr>lat = 0, lng = 0, ele = None, time = Some 10000, hr = None, cadence = None,
               powerW = None, temp = None\<rparr>,
             \<lparr>lat = 0, lng = 180, ele = None, time = Some 0, hr = None, cadence = None,
               powerW = None, temp = None\<rparr>],
          totalDistance = 6371000 * pi, totalElevationGain = 0, totalTime = - 10,
          averagePace = Num 0, averageHR = None, maxHR = None,
          bounds = \<lparr>minLat = Num 0, maxLat = Num 0, minLng = Num 180, maxLng = Num 180\<rparr>\<rparr> \<and>
   jsdiv (- 10) (6371000 * pi) \<noteq> Num 0 \<and>
   parseTCXFile ''run.tcx''
     (sampleTcx [sampleTrackpoint (Some 0) (Some 0) (Some 0),
                 sampleTrackpoint (Some 0) (Some 180) (Some 10000)] None None) =
     Inr \<lparr>name = ''run'', date = None,
          points =
            [\<lparr>lat = 0, lng = 0, ele = None, time = Some 0, hr = None, cadence = None,
               powerW = None, temp = None\<rparr>,
             \<lparr>lat = 0, lng = 180, ele = None, time = Some 10000, hr = None, cadence = None,
               powerW = None, temp = None\<rparr>],
          totalDistance = 6371000 * pi, totalElevationGain = 0, totalTime = 10,
          averagePace = PosInf, averageHR = None, maxHR = None,
          bounds = \<lparr>minLat = Num 0, maxLat = Num 0, minLng = Num 180, maxLng = Num 180\<rparr>\<rparr> \<and>
   jsdiv 10 (6371000 * pi) \<noteq> PosInf"
proof -
  have "parseGPXFile ''route.gpx'' (sampleLine [(0, 0, None), (180, 0, None)] [Some 10000, Some 0]) =
     Inr \<lparr>name = ''route'', date = None,
          points =
            [\<lparr>lat = 0, lng = 0, ele = None, time = Some 10000, hr = None, cadence = None,
               powerW = None, temp = None\<rparr>,
             \<lparr>lat = 0, lng = 180, ele = None, time = Some 0, hr = None, cadence = None,
               powerW = None, temp = None\<rparr>],
          totalDistance = 6371000 * pi, totalElevationGain = 0, totalTime = - 10,
          averagePace = Num 0, averageHR = None, maxHR = None,
          bounds = \<lparr>minLat = Num 0, maxLat = Num 0, minLng = Num 180, maxLng = Num 180\<rparr>\<rparr>"
    by (simp add: parseGPXFile_def sampleLine_def parseGPXFile_step_def gpxPoint_def
        calculateBasicMetrics_def calculateBasicMetrics_step_def elevationGainStep_def
        timeSpan_def haversine_equator_half_turn Let_def)
  moreover have "parseTCXFile ''run.tcx''
     (sampleTcx [sampleTrackpoint (Some 0) (Some 0) (Some 0),
                 sampleTrackpoint (Some 0) (Some 180) (Some 10000)] None None) =
     Inr \<lparr>name = ''run'', date = None,
          points =
            [\<lparr>lat = 0, lng = 0, ele = None, time = Some 0, hr = None, cadence = None,
               powerW = None, temp = None\<rparr>,
             \<lparr>lat = 0, lng = 180, ele = None, time = Some 10000, hr = None, cadence = None,
               powerW = None, temp = None\<rparr>],
          totalDistance = 6371000 * pi, totalElevationGain = 0, totalTime = 10,
          averagePace = PosInf, averageHR = None, maxHR = None,
          bounds = \<lparr>minLat = Num 0, maxLat = Num 0, minLng = Num 180, maxLng = Num 180\<rparr>\<rparr>"
    by (simp add: parseTCXFile_def sampleTcx_def sampleTrackpoint_def tcxLap_step_def
        tcxTrackpoint_step_def when_truthy_def calculateTCXMetrics_def hrMetrics_loop_def
        hrMetrics_step_def or_else_def elevationGainStep_def timeSpan_def jsdiv_def
        haversine_equator_half_turn Let_def)
  moreover have "jsdiv (- 10) (6371000 * pi) \<noteq> Num 0" "jsdiv 10 (6371000 * pi) \<noteq> PosInf"
    by (simp_all add: jsdiv_def)
  ultimately show ?thesis
    by simp
qed

text \<open>
  C4, amended: for the GPX adapter, and for the FIT adapter when the session summary
  gives no distance and no time, the stored \<open>averagePace\<close> is
  \<open>totalTime / totalDistance\<close> when the recomputed \<open>totalTime\<close> is positive, and 0
  otherwise.
\<close>

theorem averagePace_recomputed:
  "(parseGPXFile fileName features = Inr a \<longrightarrow>
      averagePace a =
        (if 0 < totalTime a then jsdiv (totalTime a) (totalDistance a) else Num 0)) \<and>
   (fst (parseFITFile fileName' decoder) = Inr b \<and> fitTotalsAbsent (read_messages decoder) \<longrightarrow>
      averagePace b =
        (if 0 < totalTime b then jsdiv (totalTime b) (totalDistance b) else Num 0))"
proof (intro conjI impI)
  assume "parseGPXFile fileName features = Inr a"
  then obtain m where "calculateBasicMetrics (points a) = Inr m"
    and "averagePace a = t_averagePace m" "totalTime a = t_totalTime m"
    "totalDistance a = t_totalDistance m"
    using parseGPXFile_Inr by blast
  then show "averagePace a =
        (if 0 < totalTime a then jsdiv (totalTime a) (totalDistance a) else Num 0)"
    using calculateBasicMetrics_pace by simp
next
  assume h: "fst (parseFITFile fileName' decoder) = Inr b \<and> fitTotalsAbsent (read_messages decoder)"
  let ?ms = "read_messages decoder"
  obtain m where m: "calculateMetricsFromFIT (fitPoints ?ms) = Inr m"
    and b: "b = fitActivity (fitName fileName' ?ms) (fitPoints ?ms) (fitSessionMessage ?ms) m"
    using h parseFITFile_Inr parseFIT_messages_Inr by blast
  have abs: "case fitSessionMessage ?ms of
               Some x \<Rightarrow> \<not> truthy (ses_totalDistance x) \<and> \<not> truthy (ses_totalElapsedTime x) \<and>
                 \<not> truthy (ses_totalTimerTime x)
             | None \<Rightarrow> True"
    using h by (simp add: fitTotalsAbsent_def)
  show "averagePace b =
        (if 0 < totalTime b then jsdiv (totalTime b) (totalDistance b) else Num 0)"
    unfolding b fitActivity_averagePace fitActivity_totals_absent [OF abs]
    using calculateMetricsFromFIT_pace [OF m] .
qed

theorem averagePace_recomputed_witness:
  "(\<exists>a. parseGPXFile ''route.gpx''
          (sampleLine [(0, 0, None), (180, 0, None)] [Some 0, Some 10000]) = Inr a \<and>
        averagePace a = Num (10 / (6371000 * pi))) \<and>
   (\<exists>b. fst (parseFITFile ''ride.fit''
               (sampleDecoder True [sampleFitRecord 1073741824 536870912 (Some 0),
                                    sampleFitRecord (- 1073741824) 536870912 (Some 10000)])) =
          Inr b \<and>
        averagePace b = Num (10 / (6371000 * pi)))"
proof -
  let ?fs = "sampleLine [(0, 0, None), (180, 0, None)] [Some 0, Some 10000]"
  let ?dec = "sampleDecoder True [sampleFitRecord 1073741824 536870912 (Some 0),
                                  sampleFitRecord (- 1073741824) 536870912 (Some 10000)]"
  obtain a where a: "parseGPXFile ''route.gpx'' ?fs = Inr a"
    and ta: "totalTime a = 10" "totalDistance a = 6371000 * pi"
    by (simp add: parseGPXFile_def sampleLine_def parseGPXFile_step_def gpxPoint_def
        calculateBasicMetrics_def calculateBasicMetrics_step_def elevationGainStep_def
        timeSpan_def haversine_equator_half_turn Let_def)
  obtain b where b: "fst (parseFITFile ''ride.fit'' ?dec) = Inr b"
    and tb: "totalTime b = 10" "totalDistance b = 6371000 * pi"
    by (simp add: parseFITFile_def sampleDecoder_def sampleFitRecord_def parseFIT_messages_def
        fitPoints_def fitName_def fitSessionMessage_def fitActivity_def
        fitRecord_step_def js_or_def convertSemicirclesToDegrees_def calculateMetricsFromFIT_def
        hrMetrics_loop_def hrMetrics_step_def elevationGainStep_def timeSpan_def
        haversine_pole_to_pole Let_def)
  have abs: "fitTotalsAbsent (read_messages ?dec)"
    by (simp add: fitTotalsAbsent_def fitSessionMessage_def sampleDecoder_def)
  have "averagePace a = Num (10 / (6371000 * pi))"
    using averagePace_recomputed [of "''route.gpx''" ?fs a, THEN conjunct1] a ta
    by (simp add: jsdiv_def)
  moreover have "averagePace b = Num (10 / (6371000 * pi))"
    using averagePace_recomputed [of _ _ _ "''ride.fit''" ?dec b, THEN conjunct2] b tb abs
    by (simp add: jsdiv_def)
  ultimately show ?thesis
    using a b by blast
qed

text \<open>
  C5: every point holding a defined raw value should get the normalized value
  \<open>clamp((v - p5) / (p95 - p5), 0, 1)\<close>. On three points with the powers 0, 200 and
  300 the population of the percentiles is 0, 200, 300, with \<open>p5 = 0\<close> and
  \<open>p95 = 300\<close>, so that the point with power 0 should get the normalized power 0. The
  code tests \<open>point.power ? ... : undefined\<close>, which is false for the power 0, and
  leaves that point without a normalized power.
\<close>

theorem normalizeMetrics_zero_power_not_normalized:
  "map normalizedPower
     (normalizeMetrics
        [(samplePoint 0 None 5)\<lparr>powerW := Some 0\<rparr>, (samplePoint 100 None 5)\<lparr>powerW := Some 200\<rparr>,
         (samplePoint 200 None 5)\<lparr>powerW := Some 300\<rparr>]) =
     [None, Some (2 / 3), Some 1] \<and>
   powerPopulation
     [(samplePoint 0 None 5)\<lparr>powerW := Some 0\<rparr>, (samplePoint 100 None 5)\<lparr>powerW := Some 200\<rparr>,
      (samplePoint 200 None 5)\<lparr>powerW := Some 300\<rparr>] =
     [0, 200, 300] \<and>
   percentile [0, 200, 300] (5 / 100) = 0 \<and> percentile [0, 200, 300] (95 / 100) = 300 \<and>
   normalize_metric 0 0 300 = 0"
  by (simp add: normalizeMetrics_def powerPopulation_def percentile_def normalize_metric_def
      Let_def)

text \<open>
  C6: the smoothed pace (window 10) and grade (window 5) at index \<open>i\<close> are the
  average of the raw value at \<open>i\<close> and the smoothed values at the up to
  \<open>floor(window / 2)\<close> indices just before \<open>i\<close>. No point after \<open>i\<close> is
  used: the processed points up to \<open>i\<close> are those of the input cut after \<open>i\<close>.
  At index 0, where there is no earlier value, the raw value is the result.
\<close>

theorem smoothing_causal_backward:
  "\<exists>ps. computeMetrics pts = Some ps \<and>
        (\<forall>i<length pts.
           ProcessedPoint.pace (ps ! i) =
             (rawPace pts i + sum_list (map (\<lambda>k. ProcessedPoint.pace (ps ! k)) [i - 10 div 2..<i])) /
             real (1 + min i (10 div 2)) \<and>
           ProcessedPoint.grade (ps ! i) =
             (rawGrade pts i + sum_list (map (\<lambda>k. ProcessedPoint.grade (ps ! k)) [i - 5 div 2..<i])) /
             real (1 + min i (5 div 2)) \<and>
           computeMetrics (take (Suc i) pts) = Some (take (Suc i) ps)) \<and>
        (pts \<noteq> [] \<longrightarrow>
           ProcessedPoint.pace (ps ! 0) = rawPace pts 0 \<and>
           ProcessedPoint.grade (ps ! 0) = rawGrade pts 0)"
proof -
  obtain ps where cm: "computeMetrics pts = Some ps" and len: "length ps = length pts"
    and nth: "\<forall>i<length pts. ps ! i = processedAt pts ps i"
    using computeMetrics_closed [of pts] by blast
  have p: "ProcessedPoint.pace (ps ! i) = trailingAverage ProcessedPoint.pace ps i 5 (rawPace pts i)"
    and g: "ProcessedPoint.grade (ps ! i) = trailingAverage ProcessedPoint.grade ps i 2 (rawGrade pts i)"
    if "i < length pts" for i
    using that nth pace_processedAt [of pts ps i] grade_processedAt [of pts ps i] by simp_all
  have 1: "ProcessedPoint.pace (ps ! i) =
             (rawPace pts i + sum_list (map (\<lambda>k. ProcessedPoint.pace (ps ! k)) [i - 10 div 2..<i])) /
             real (1 + min i (10 div 2)) \<and>
           ProcessedPoint.grade (ps ! i) =
             (rawGrade pts i + sum_list (map (\<lambda>k. ProcessedPoint.grade (ps ! k)) [i - 5 div 2..<i])) /
             real (1 + min i (5 div 2)) \<and>
           computeMetrics (take (Suc i) pts) = Some (take (Suc i) ps)" if "i < length pts" for i
    using that p [OF that] g [OF that] computeMetrics_take [OF cm, of "Suc i"]
    by (simp add: trailingAverage_def)
  have 2: "ProcessedPoint.pace (ps ! 0) = rawPace pts 0 \<and>
           ProcessedPoint.grade (ps ! 0) = rawGrade pts 0" if "pts \<noteq> []"
    using that p [of 0] g [of 0] by (simp add: trailingAverage_0)
  show ?thesis
    using cm 1 2 by blast
qed

theorem smoothing_causal_backward_witness:
  "\<exists>ps. computeMetrics
          [\<lparr>lat = 10, lng = 20, ele = Some 5, time = Some 0, hr = None, cadence = None,
             powerW = None, temp = None\<rparr>,
           \<lparr>lat = 10, lng = 21, ele = Some 7, time = Some 1000, hr = None, cadence = None,
             powerW = None, temp = None\<rparr>] = Some ps \<and>
        ProcessedPoint.pace (ps ! 1) =
          (rawPace
             [\<lparr>lat = 10, lng = 20, ele = Some 5, time = Some 0, hr = None, cadence = None,
                powerW = None, temp = None\<rparr>,
              \<lparr>lat = 10, lng = 21, ele = Some 7, time = Some 1000, hr = None, cadence = None,
                powerW = None, temp = None\<rparr>] 1 +
           ProcessedPoint.pace (ps ! 0)) / 2 \<and>
        ProcessedPoint.grade (ps ! 1) =
          (rawGrade
             [\<lparr>lat = 10, lng = 20, ele = Some 5, time = Some 0, hr = None, cadence = None,
                powerW = None, temp = None\<rparr>,
              \<lparr>lat = 10, lng = 21, ele = Some 7, time = Some 1000, hr = None, cadence = None,
                powerW = None, temp = None\<rparr>] 1 +
           ProcessedPoint.grade (ps ! 0)) / 2 \<and>
        computeMetrics
          [\<lparr>lat = 10, lng = 20, ele = Some 5, time = Some 0, hr = None, cadence = None,
             powerW = None, temp = None\<rparr>] = Some [ps ! 0]"
proof -
  let ?pts = "[\<lparr>lat = 10, lng = 20, ele = Some 5, time = Some 0, hr = None, cadence = None,
                 powerW = None, temp = None\<rparr>,
               \<lparr>lat = 10, lng = 21, ele = Some 7, time = Some 1000, hr = None, cadence = None,
                 powerW = None, temp = None\<rparr>]"
  obtain ps where cm: "computeMetrics ?pts = Some ps"
    and sm: "\<forall>i<length ?pts.
           ProcessedPoint.pace (ps ! i) =
             (rawPace ?pts i + sum_list (map (\<lambda>k. ProcessedPoint.pace (ps ! k)) [i - 10 div 2..<i])) /
             real (1 + min i (10 div 2)) \<and>
           ProcessedPoint.grade (ps ! i) =
             (rawGrade ?pts i + sum_list (map (\<lambda>k. ProcessedPoint.grade (ps ! k)) [i - 5 div 2..<i])) /
             real (1 + min i (5 div 2)) \<and>
           computeMetrics (take (Suc i) ?pts) = Some (take (Suc i) ps)"
    using smoothing_causal_backward [of ?pts] by blast
  obtain cs where "computeMetrics ?pts = Some cs" "length cs = length ?pts"
    using computeMetrics_closed [of ?pts] by blast
  then have len: "length ps = 2"
    using cm by simp
  have "ProcessedPoint.pace (ps ! 1) = (rawPace ?pts 1 + ProcessedPoint.pace (ps ! 0)) / 2"
    using sm [rule_format, of 1] by simp
  moreover have "ProcessedPoint.grade (ps ! 1) = (rawGrade ?pts 1 + ProcessedPoint.grade (ps ! 0)) / 2"
    using sm [rule_format, of 1] by simp
  moreover have "computeMetrics (take (Suc 0) ?pts) = Some (take (Suc 0) ps)"
    using sm [rule_format, of 0] by simp
  then have "computeMetrics [hd ?pts] = Some [ps ! 0]"
    using len by (cases ps) simp_all
  ultimately show ?thesis
    using cm by (intro exI [of _ ps]) simp
qed

text \<open>
  C7: the average heart rate of a split should be the mean over the points of the slice
  that carry a heart rate. The code adds 0 for a point without heart rate and divides
  by the number of all points of the slice: on a slice of three points with the heart
  rates 150, none and 150, whose mean heart rate is 150, the split's \<open>averageHR\<close> is 100.
\<close>

theorem detectSplits_averageHR_missing_counts_as_zero:
  "map Split.averageHR
     (detectSplits
        [samplePoint 0 (Some 150) 5, samplePoint 600 None 5, samplePoint 1200 (Some 150) 5]
        1000) =
   [Some 100]"
  by code_simp

text \<open>
  C8: the binary-telemetry adapter calls the integrity check first. When the check does
  not pass, the result is the integrity error and no activity, and \<open>read()\<close> is never
  called, so no message is decoded and no point is extracted.
\<close>

theorem parseFITFile_integrity_first:
  "(\<not> checkIntegrity decoder \<longrightarrow>
      parseFITFile fileName decoder =
        (Inl (Error ''FIT file integrity check failed''), [Call_checkIntegrity])) \<and>
   hd (snd (parseFITFile fileName decoder)) = Call_checkIntegrity \<and>
   (Call_read \<in> set (snd (parseFITFile fileName decoder)) \<longrightarrow> checkIntegrity decoder) \<and>
   (\<forall>activity. fst (parseFITFile fileName decoder) = Inr activity \<longrightarrow> checkIntegrity decoder)"
  by (simp add: parseFITFile_def)

theorem parseFITFile_integrity_first_witness:
  "parseFITFile ''ride.fit''
     (sampleDecoder False [sampleFitRecord 536870912 1073741824 None]) =
     (Inl (Error ''FIT file integrity check failed''), [Call_checkIntegrity]) \<and>
   fst (parseFITFile ''ride.fit''
     (sampleDecoder True [sampleFitRecord 536870912 1073741824 None])) =
     Inr \<lparr>name = ''ride'', date = None,
          points = [\<lparr>lat = 45, lng = 90, ele = None, time = None, hr = None, cadence = None,
                     powerW = None, temp = None\<rparr>],
          totalDistance = 0, totalElevationGain = 0, totalTime = 0, averagePace = Num 0,
          averageHR = None, maxHR = None,
          bounds = \<lparr>minLat = PosInf, maxLat = NegInf, minLng = PosInf, maxLng = NegInf\<rparr>\<rparr>"
proof -
  have "\<not> checkIntegrity (sampleDecoder False [sampleFitRecord 536870912 1073741824 None])"
    by (simp add: sampleDecoder_def)
  then have "parseFITFile ''ride.fit''
     (sampleDecoder False [sampleFitRecord 536870912 1073741824 None]) =
     (Inl (Error ''FIT file integrity check failed''), [Call_checkIntegrity])"
    using parseFITFile_integrity_first
      [of "sampleDecoder False [sampleFitRecord 536870912 1073741824 None]" "''ride.fit''"]
    by blast
  moreover have "fst (parseFITFile ''ride.fit''
     (sampleDecoder True [sampleFitRecord 536870912 1073741824 None])) =
     Inr \<lparr>name = ''ride'', date = None,
          points = [\<lparr>lat = 45, lng = 90, ele = None, time = None, hr = None, cadence = None,
                     powerW = None, temp = None\<rparr>],
          totalDistance = 0, totalElevationGain = 0, totalTime = 0, averagePace = Num 0,
          averageHR = None, maxHR = None,
          bounds = \<lparr>minLat = PosInf, maxLat = NegInf, minLng = PosInf, maxLng = NegInf\<rparr>\<rparr>"
    by (simp add: parseFITFile_def sampleDecoder_def sampleFitRecord_def parseFIT_messages_def fitPoints_def fitName_def
        fitSessionMessage_def fitActivity_def
        fitRecord_step_def js_or_def convertSemicirclesToDegrees_def calculateMetricsFromFIT_def
        hrMetrics_loop_def timeSpan_def Let_def)
  ultimately show ?thesis
    by simp
qed

text \<open>
  C9: the geodesic distance should be symmetric. In binary64 the radicand of the
  source's formula for the points (2.5, 0) and (-2.5, 180), in either order, is
  \<open>1 + 2^-52\<close>, the distance is \<open>NaN\<close> (\<open>haversine_of_radicand_above_one\<close>), and
  \<open>NaN\<close> is not equal to itself. The radicand is not clamped to [0,1] before the
  square roots.
\<close>

text \<open>
  C10: a heart rate of exactly 0 is handled like an absent one. A point whose raw heart
  rate is 0 gets no normalized heart rate, while the 0 stays in the population of the
  percentiles that normalize the other points; \<open>findMaxHRSegment\<close> skips such a point,
  and an activity whose heart-rate samples are all 0 or absent has no peak heart-rate
  segment.
\<close>

theorem zero_hr_treated_as_absent:
  "(\<forall>i<length ps. hr (ps ! i) = Some 0 \<longrightarrow>
      normalizedHR (normalizeMetrics ps ! i) = None \<and> 0 \<in> set (hrPopulation ps) \<and>
      (\<forall>st. findMaxHRSegment_step ps i st = st)) \<and>
   (\<forall>i<length ps. \<forall>h. hr (ps ! i) = Some h \<and> h \<noteq> 0 \<longrightarrow>
      normalizedHR (normalizeMetrics ps ! i) =
        Some (normalize_metric h (percentile (hrPopulation ps) (5 / 100))
                (percentile (hrPopulation ps) (95 / 100)))) \<and>
   ((\<forall>p\<in>set ps. hr p = None \<or> hr p = Some 0) \<longrightarrow> findMaxHRSegment ps = None) \<and>
   ((\<forall>p\<in>set pts. hr p = None \<or> hr p = Some 0) \<longrightarrow>
      (\<exists>qs. metricsEngine pts = Some qs \<and> findMaxHRSegment qs = None))"
proof -
  have 1: "normalizedHR (normalizeMetrics ps ! i) = None \<and> 0 \<in> set (hrPopulation ps) \<and>
           (\<forall>st. findMaxHRSegment_step ps i st = st)"
    if "i < length ps" "hr (ps ! i) = Some 0" for i
  proof -
    have "ps ! i \<in> set ps"
      using that(1) by simp
    then have "Some 0 \<in> set (filter (\<lambda>h. h \<noteq> None) (map hr ps))"
      using that(2) by force
    then have "the (Some (0::real)) \<in> set (hrPopulation ps)"
      unfolding hrPopulation_def set_map by (rule imageI)
    then show ?thesis
      using that by (simp add: normalizeMetrics_fields findMaxHRSegment_step_skip)
  qed
  have 2: "normalizedHR (normalizeMetrics ps ! i) =
        Some (normalize_metric h (percentile (hrPopulation ps) (5 / 100))
                (percentile (hrPopulation ps) (95 / 100)))"
    if "i < length ps" "hr (ps ! i) = Some h \<and> h \<noteq> 0" for i h
    using that by (simp add: normalizeMetrics_fields)
  have 4: "\<exists>qs. metricsEngine pts = Some qs \<and> findMaxHRSegment qs = None"
    if a: "\<forall>p\<in>set pts. hr p = None \<or> hr p = Some 0"
  proof -
    obtain qs where qs: "metricsEngine pts = Some qs" "length qs = length pts"
      "\<forall>i<length pts. hr (qs ! i) = hr (pts ! i)"
      using metricsEngine_hr [of pts] by blast
    have "hr p = None \<or> hr p = Some 0" if "p \<in> set qs" for p
    proof -
      from that obtain i where "i < length qs" "qs ! i = p"
        unfolding in_set_conv_nth by blast
      then have i: "i < length pts" "p = qs ! i"
        using qs(2) by simp_all
      then have "hr p = hr (pts ! i)" "pts ! i \<in> set pts"
        using qs(3) by simp_all
      then show ?thesis
        using a by simp
    qed
    then have "\<forall>p\<in>set qs. hr p = None \<or> hr p = Some 0"
      by blast
    then show ?thesis
      using qs(1) findMaxHRSegment_no_hr by blast
  qed
  have 3: "(\<forall>p\<in>set ps. hr p = None \<or> hr p = Some 0) \<longrightarrow> findMaxHRSegment ps = None"
    using findMaxHRSegment_no_hr [of ps] by blast
  show ?thesis
    by (intro conjI allI impI 3 [rule_format] 4) (use 1 2 in blast)+
qed

theorem zero_hr_treated_as_absent_witness:
  "normalizedHR
     (normalizeMetrics
        [samplePoint 0 (Some 0) 0, samplePoint 100 (Some 100) 5, samplePoint 200 (Some 200) 6] ! 0) =
     None \<and>
   normalizedHR
     (normalizeMetrics
        [samplePoint 0 (Some 0) 0, samplePoint 100 (Some 100) 5, samplePoint 200 (Some 200) 6] ! 1) =
     Some (1 / 2) \<and>
   findMaxHRSegment [samplePoint 0 (Some 0) 5, samplePoint 100 None 5, samplePoint 200 (Some 0) 5] = None \<and>
   (\<exists>qs. metricsEngine
           [\<lparr>lat = 10, lng = 20, ele = None, time = None, hr = Some 0, cadence = None,
              powerW = None, temp = None\<rparr>,
            \<lparr>lat = 10, lng = 21, ele = None, time = None, hr = Some 0, cadence = None,
              powerW = None, temp = None\<rparr>] = Some qs \<and>
         findMaxHRSegment qs = None)"
proof -
  let ?ex = "[samplePoint 0 (Some 0) 0, samplePoint 100 (Some 100) 5, samplePoint 200 (Some 200) 6]"
  let ?z = "[samplePoint 0 (Some 0) 5, samplePoint 100 None 5, samplePoint 200 (Some 0) 5]"
  let ?pts = "[\<lparr>lat = 10, lng = 20, ele = None, time = None, hr = Some 0, cadence = None,
                 powerW = None, temp = None\<rparr>,
               \<lparr>lat = 10, lng = 21, ele = None, time = None, hr = Some (0::real), cadence = None,
                 powerW = None, temp = None\<rparr>]"
  note ex = zero_hr_treated_as_absent [of ?ex ?pts]
  note z = zero_hr_treated_as_absent [of ?z ?pts]
  have "normalizedHR (normalizeMetrics ?ex ! 0) = None"
    using ex [THEN conjunct1, rule_format, of 0] by simp
  moreover have "normalizedHR (normalizeMetrics ?ex ! 1) = Some (1 / 2)"
    using ex [THEN conjunct2, THEN conjunct1, rule_format, of 1 100]
    by (simp add: ex_pop ex_perc normalize_metric_def)
  moreover have "findMaxHRSegment ?z = None"
    using z [THEN conjunct2, THEN conjunct2, THEN conjunct1] by simp
  moreover have "\<exists>qs. metricsEngine ?pts = Some qs \<and> findMaxHRSegment qs = None"
    using ex [THEN conjunct2, THEN conjunct2, THEN conjunct2] by simp
  ultimately show ?thesis
    by simp
qed

end
